theory Spec2Isabelle
  imports Complex_Main "HOL-Library.Char_ord" "HOL-Library.List_Lexorder"
begin

section \<open>Trio caller: construction\<close>

text \<open>
  \<^verbatim>\<open>TrioCaller::TrioCaller\<close> (\<^verbatim>\<open>core/callers/trio_caller.cpp\<close>) checks the three
  ploidies of its parameters and throws on the combinations it does not support:
  \<^verbatim>\<open>std::logic_error\<close> with a message, or \<^verbatim>\<open>BadPloidy\<close>. The ploidies are
  \<^verbatim>\<open>unsigned\<close>; the constructor only compares them, so they are naturals here.
  \<^verbatim>\<open>model::TrioModel::max_ploidy()\<close> is declared in a header that is not part of the
  sources at hand and is a parameter of the model.
\<close>

datatype trio_error = LogicError string | BadPloidy nat

record TrioParameters =
  maternal_ploidy :: nat
  paternal_ploidy :: nat
  child_ploidy :: nat

definition TrioCaller_ctor :: "nat \<Rightarrow> TrioParameters \<Rightarrow> trio_error + TrioParameters" where
  "TrioCaller_ctor max_ploidy parameters =
     (if maternal_ploidy parameters = 0 \<and> paternal_ploidy parameters = 0
          \<and> child_ploidy parameters = 0
      then Inl (LogicError ''At least one sample must have positive ploidy'')
      else if child_ploidy parameters = 0 \<and> maternal_ploidy parameters > 0
          \<and> paternal_ploidy parameters > 0
      then Inl (LogicError
        ''There must be at least one inherited haplotype if both parents have zygosity'')
      else if maternal_ploidy parameters > max_ploidy \<or> paternal_ploidy parameters > max_ploidy
          \<or> child_ploidy parameters > max_ploidy
      then Inl (BadPloidy max_ploidy)
      else Inr parameters)"

text \<open>
  The contract in the words of the specification: with a positive child ploidy at most
  one parent has ploidy 0; with child ploidy 0 both parents have positive ploidy.
\<close>

definition spec_trio_ploidy_contract :: "TrioParameters \<Rightarrow> bool" where
  "spec_trio_ploidy_contract parameters =
     (if child_ploidy parameters > 0
      then \<not> (maternal_ploidy parameters = 0 \<and> paternal_ploidy parameters = 0)
      else maternal_ploidy parameters > 0 \<and> paternal_ploidy parameters > 0)"

section \<open>Trio caller: reference calls\<close>

text \<open>
  \<^verbatim>\<open>TrioCaller::call_reference\<close> has two overloads. The public one receives the
  latents of the base class and casts them by reference (\<^verbatim>\<open>dynamic_cast<const Latents&>\<close>,
  which throws \<^verbatim>\<open>std::bad_cast\<close> on latents of another caller); the private one
  receives trio latents and returns an empty vector.
\<close>

datatype ('t, 'o) caller_latents = TrioLatents 't | OtherLatents 'o

datatype cast_error = BadCast

definition call_reference :: "'allele list \<Rightarrow> 't \<Rightarrow> 'pileups \<Rightarrow> 'refcall list" where
  "call_reference alleles latents pileups = []"

definition call_reference_public ::
  "'allele list \<Rightarrow> ('t, 'o) caller_latents \<Rightarrow> 'pileups \<Rightarrow> cast_error + 'refcall list" where
  "call_reference_public alleles latents pileups =
     (case latents of
        TrioLatents l \<Rightarrow> Inr (call_reference alleles l pileups)
      | OtherLatents _ \<Rightarrow> Inl BadCast)"

section \<open>Trio caller: model posterior\<close>

text \<open>
  The free function \<^verbatim>\<open>calculate_model_posterior\<close> of \<^verbatim>\<open>trio_caller.cpp\<close>, over the reals
  (the source computes in \<^verbatim>\<open>double\<close>; rounding and the non-finite values are outside
  this model).
\<close>

text \<open>
  Modelled from the spec: \<^verbatim>\<open>maths::log_sum_exp\<close> (utils/maths.hpp) is not among the
  sources; the specification's numerical policy has every sum computed in log space with
  log-sum-exp, the logarithm of the sum of the exponentials.
\<close>

definition log_sum_exp :: "real \<Rightarrow> real \<Rightarrow> real" where
  "log_sum_exp log_a log_b = ln (exp log_a + exp log_b)"

definition normalModelPrior :: real where
  "normalModelPrior = 9999999 / 10000000"

definition dummyModelPrior :: real where
  "dummyModelPrior = 1 - normalModelPrior"

definition calculate_model_posterior :: "real \<Rightarrow> real \<Rightarrow> real" where
  "calculate_model_posterior normal_model_log_evidence dummy_model_log_evidence =
     (let normal_model_ljp = ln normalModelPrior + normal_model_log_evidence;
          dummy_model_ljp = ln dummyModelPrior + dummy_model_log_evidence;
          norm = log_sum_exp normal_model_ljp dummy_model_ljp
      in exp (normal_model_ljp - norm))"

text \<open>
  The member function computes a posterior only when a genotype of one more haplotype
  than the largest ploidy is still within the trio model's limit. The sum
  \<^verbatim>\<open>max_ploidy + 1\<close> is \<^verbatim>\<open>unsigned\<close> and wraps at \<open>2 ^ 32\<close>. The log evidence of the
  dummy model comes from \<^verbatim>\<open>TrioModel::evaluate\<close>, which is not among the sources, and
  is a parameter, as is the log evidence stored in the latents.
\<close>

definition TrioCaller_calculate_model_posterior ::
  "nat \<Rightarrow> TrioParameters \<Rightarrow> real \<Rightarrow> real \<Rightarrow> real option" where
  "TrioCaller_calculate_model_posterior trio_model_max_ploidy parameters
       latents_log_evidence inferences_log_evidence =
     (let max_ploidy = max (maternal_ploidy parameters)
            (max (paternal_ploidy parameters) (child_ploidy parameters))
      in if (max_ploidy + 1) mod 2 ^ 32 \<le> trio_model_max_ploidy
         then Some (calculate_model_posterior latents_log_evidence inferences_log_evidence)
         else None)"

text \<open>The logistic function and the log prior odds of the normal model.\<close>

definition sigmoid :: "real \<Rightarrow> real" where
  "sigmoid x = 1 / (1 + exp (- x))"

definition log_prior_odds :: real where
  "log_prior_odds = ln ((1 - 1 / 10 ^ 7) / (1 / 10 ^ 7))"

section \<open>Command line: conflicting options and the exit code\<close>

text \<open>
  \<^verbatim>\<open>program_options.cpp\<close> reads the command line with boost's program options. The
  variables map is a finite map from option names to values that know whether they were
  defaulted; \<^verbatim>\<open>count\<close> is 1 for a stored option and 0 otherwise. An exception is a value
  carrying the text of \<^verbatim>\<open>what()\<close>.
\<close>

datatype option_value = BoolValue bool | StringValue string | OtherValue

record variable_value =
  defaulted :: bool
  held :: option_value

type_synonym variables_map = "string \<rightharpoonup> variable_value"

datatype std_exception = logic_error string | library_error string

fun what :: "std_exception \<Rightarrow> string" where
  "what (logic_error msg) = msg"
| "what (library_error msg) = msg"

definition count :: "variables_map \<Rightarrow> string \<Rightarrow> nat" where
  "count vm opt = (case vm opt of None \<Rightarrow> 0 | Some _ \<Rightarrow> 1)"

text \<open>\<^verbatim>\<open>vm[opt].defaulted()\<close>: the subscript of an option that is not stored is an empty
  value, which is not defaulted.\<close>

definition is_defaulted :: "variables_map \<Rightarrow> string \<Rightarrow> bool" where
  "is_defaulted vm opt = (case vm opt of None \<Rightarrow> False | Some v \<Rightarrow> defaulted v)"

definition conflicting_options :: "variables_map \<Rightarrow> string \<Rightarrow> string \<Rightarrow> std_exception + unit" where
  "conflicting_options vm opt1 opt2 =
     (if count vm opt1 \<noteq> 0 \<and> \<not> is_defaulted vm opt1 \<and> count vm opt2 \<noteq> 0 \<and> \<not> is_defaulted vm opt2
      then Inl (logic_error (''conflicting options '' @ [CHR 0x27] @ opt1 @ [CHR 0x27]
                  @ '' and '' @ [CHR 0x27] @ opt2 @ [CHR 0x27] @ ''.''))
      else Inr ())"

text \<open>
  The checks of \<^verbatim>\<open>parse_options\<close> that follow \<^verbatim>\<open>po::store\<close>, in the order of the
  source. \<^verbatim>\<open>vm.at("caller").as<std::string>()\<close> throws when the option is not stored or
  does not hold a string. \<^verbatim>\<open>po::notify\<close> belongs to the library and is a parameter.
\<close>

definition caller_is_trio :: "variables_map \<Rightarrow> std_exception + bool" where
  "caller_is_trio vm =
     (case vm ''caller'' of
        None \<Rightarrow> Inl (library_error ''map::at'')
      | Some v \<Rightarrow> (case held v of
                     StringValue s \<Rightarrow> Inr (s = ''trio'')
                   | _ \<Rightarrow> Inl (library_error ''boost::bad_any_cast'')))"

definition option_checks ::
  "variables_map \<Rightarrow> (variables_map \<Rightarrow> std_exception + unit) \<Rightarrow> std_exception + unit" where
  "option_checks vm notify =
     (if count vm ''reads'' = 0 \<and> count vm ''reads-file'' = 0
      then Inl (library_error ''the option --reads | --reads-file is required but missing'')
      else case caller_is_trio vm of
        Inl e \<Rightarrow> Inl e
      | Inr trio \<Rightarrow>
          if trio \<and> (count vm ''maternal-sample'' = 0 \<or> count vm ''paternal-sample'' = 0)
          then Inl (logic_error
            ''option maternal-sample and paternal-sample are required when caller=trio'')
          else (case conflicting_options vm ''make-positional-refcalls'' ''make-blocked-refcalls'' of
                  Inl e \<Rightarrow> Inl e
                | Inr _ \<Rightarrow> notify vm))"

text \<open>
  \<^verbatim>\<open>parse_options\<close> returns the printed lines and the optional variables map. Its
  first argument is what \<^verbatim>\<open>po::store\<close> made of the command line (it throws on a
  command line it cannot read). Every exception is caught inside: the function prints
  \<^verbatim>\<open>Option error:\<close> with the text of the exception and returns \<^verbatim>\<open>boost::none\<close>. The
  printed description of all options and the version string are parameters.
\<close>

definition parse_options ::
  "string \<Rightarrow> string \<Rightarrow> std_exception + variables_map
     \<Rightarrow> (variables_map \<Rightarrow> std_exception + unit) \<Rightarrow> string list \<times> variables_map option" where
  "parse_options all_description Octopus_version stored notify =
     (case stored of
        Inl e \<Rightarrow> ([''Option error: '' @ what e], None)
      | Inr vm \<Rightarrow>
          if count vm ''help'' \<noteq> 0
          then ([''Usage: octopus <command> [options]'', all_description], Some vm)
          else if count vm ''version'' \<noteq> 0
          then ([''Octopus version '' @ Octopus_version], Some vm)
          else (case option_checks vm notify of
                  Inl e \<Rightarrow> ([''Option error: '' @ what e], None)
                | Inr _ \<Rightarrow> ([], Some vm)))"

definition is_run_command :: "variables_map \<Rightarrow> bool" where
  "is_run_command options = (count options ''help'' = 0 \<and> count options ''version'' = 0)"

text \<open>
  \<^verbatim>\<open>main\<close> (\<^verbatim>\<open>main.cpp\<close>). Its call of \<^verbatim>\<open>parse_options\<close> on the command line is
  commented out: the options are what \<^verbatim>\<open>get_basic_mock_options()\<close> returns, a function
  of \<^verbatim>\<open>mock_options.hpp\<close>, which is not among the sources and takes no argument; it
  is a parameter that either throws or returns an optional variables map. The command
  line \<open>argv\<close> is an argument of \<^verbatim>\<open>main\<close> that is never read. The run either returns or
  throws. The result is what was written to the two streams and the exit code. The two
  time stamps are parameters.
\<close>

datatype thrown = StdException string | UnknownException

definition EXIT_SUCCESS :: int where
  "EXIT_SUCCESS = 0"

definition EXIT_FAILURE :: int where
  "EXIT_FAILURE = 1"

record main_result =
  cout :: "string list"
  cerr :: "string list"
  exit_code :: int

definition main ::
  "string list \<Rightarrow> thrown + variables_map option \<Rightarrow> (variables_map \<Rightarrow> thrown option)
     \<Rightarrow> string \<Rightarrow> string \<Rightarrow> string \<Rightarrow> main_result" where
  "main argv get_basic_mock_options run_octopus start finish took =
     (let options = get_basic_mock_options;
          caught = (\<lambda>out t. case t of
            StdException w \<Rightarrow> \<lparr>cout = out, cerr = [''Error: '' @ w], exit_code = EXIT_FAILURE\<rparr>
          | UnknownException \<Rightarrow>
              \<lparr>cout = out, cerr = [''Error: encountered unknown error. Quiting now''],
               exit_code = EXIT_FAILURE\<rparr>)
      in case options of
        Inl t \<Rightarrow> caught [] t
      | Inr None \<Rightarrow>
          \<lparr>cout = [''Octopus: could not parse input options. Did not start run.''], cerr = [],
           exit_code = EXIT_SUCCESS\<rparr>
      | Inr (Some opts) \<Rightarrow>
          if is_run_command opts
          then (case run_octopus opts of
                  Some t \<Rightarrow> caught [''Octopus: started run at '' @ start] t
                | None \<Rightarrow>
                    \<lparr>cout = [''Octopus: started run at '' @ start,
                             ''Octopus: finished run at '' @ finish @ ''. Took '' @ took],
                     cerr = [], exit_code = EXIT_SUCCESS\<rparr>)
          else \<lparr>cout = [], cerr = [], exit_code = EXIT_SUCCESS\<rparr>)"

text \<open>A command line that names both reference-call switches and is otherwise complete,
  the variables map that \<^verbatim>\<open>po::store\<close> makes of it, and options with one of the two
  switches, as the mock function may return them.\<close>

definition both_refcalls_argv :: "string list" where
  "both_refcalls_argv =
     [''octopus'', ''--reads'', ''reads.bam'', ''--make-positional-refcalls'',
      ''--make-blocked-refcalls'']"

definition example_mock_options :: variables_map where
  "example_mock_options =
     [''reads'' \<mapsto> \<lparr>defaulted = False, held = OtherValue\<rparr>,
      ''caller'' \<mapsto> \<lparr>defaulted = True, held = StringValue ''population''\<rparr>,
      ''make-positional-refcalls'' \<mapsto> \<lparr>defaulted = False, held = BoolValue True\<rparr>]"

definition both_refcalls_vm :: variables_map where
  "both_refcalls_vm =
     [''reads'' \<mapsto> \<lparr>defaulted = False, held = OtherValue\<rparr>,
      ''caller'' \<mapsto> \<lparr>defaulted = True, held = StringValue ''population''\<rparr>,
      ''make-positional-refcalls'' \<mapsto> \<lparr>defaulted = False, held = BoolValue True\<rparr>,
      ''make-blocked-refcalls'' \<mapsto> \<lparr>defaulted = False, held = BoolValue True\<rparr>]"

section \<open>Genomic regions\<close>

text \<open>
  Modelled from the spec: the region type and its helper functions
  (\<^verbatim>\<open>genomic_region.hpp\<close>, \<^verbatim>\<open>contig_region.hpp\<close>, \<^verbatim>\<open>mappable_algorithms.hpp\<close>) are
  not among the sources. The specification's data model has a region as a contig with a
  zero-based half-open interval \<open>[begin, end)\<close> with \<open>begin \<le> end\<close>, contigs never
  compared across. The helpers below read positions only; they are meant for regions of
  one contig, which is all that the per-region loop and the record factory handle. An
  empty region (an insertion site) overlaps every region it lies in or touches.
\<close>

record GenomicRegion =
  contig_name :: string
  mapped_begin :: nat
  mapped_end :: nat

definition is_empty :: "GenomicRegion \<Rightarrow> bool" where
  "is_empty r = (mapped_begin r = mapped_end r)"

definition region_size :: "GenomicRegion \<Rightarrow> nat" where
  "region_size r = mapped_end r - mapped_begin r"

definition overlap_size :: "GenomicRegion \<Rightarrow> GenomicRegion \<Rightarrow> int" where
  "overlap_size lhs rhs =
     int (min (mapped_end lhs) (mapped_end rhs)) - int (max (mapped_begin lhs) (mapped_begin rhs))"

definition overlaps :: "GenomicRegion \<Rightarrow> GenomicRegion \<Rightarrow> bool" where
  "overlaps lhs rhs =
     (contig_name lhs = contig_name rhs
      \<and> (let overlapped = overlap_size lhs rhs
         in overlapped > 0 \<or> (overlapped = 0 \<and> (is_empty lhs \<or> is_empty rhs))))"

definition contains :: "GenomicRegion \<Rightarrow> GenomicRegion \<Rightarrow> bool" where
  "contains lhs rhs =
     (contig_name lhs = contig_name rhs
      \<and> mapped_begin lhs \<le> mapped_begin rhs \<and> mapped_end rhs \<le> mapped_end lhs)"


definition begins_before :: "GenomicRegion \<Rightarrow> GenomicRegion \<Rightarrow> bool" where
  "begins_before lhs rhs = (mapped_begin lhs < mapped_begin rhs)"

definition begins_equal :: "GenomicRegion \<Rightarrow> GenomicRegion \<Rightarrow> bool" where
  "begins_equal lhs rhs = (mapped_begin lhs = mapped_begin rhs)"

definition ends_before :: "GenomicRegion \<Rightarrow> GenomicRegion \<Rightarrow> bool" where
  "ends_before lhs rhs = (mapped_end lhs < mapped_end rhs)"

definition ends_equal :: "GenomicRegion \<Rightarrow> GenomicRegion \<Rightarrow> bool" where
  "ends_equal lhs rhs = (mapped_end lhs = mapped_end rhs)"

definition is_after :: "GenomicRegion \<Rightarrow> GenomicRegion \<Rightarrow> bool" where
  "is_after lhs rhs = (mapped_end rhs \<le> mapped_begin lhs)"

definition head_region :: "GenomicRegion \<Rightarrow> GenomicRegion" where
  "head_region r = r\<lparr>mapped_end := mapped_begin r\<rparr>"

definition tail_region :: "GenomicRegion \<Rightarrow> GenomicRegion" where
  "tail_region r = r\<lparr>mapped_begin := mapped_end r\<rparr>"

definition closed_region :: "GenomicRegion \<Rightarrow> GenomicRegion \<Rightarrow> GenomicRegion" where
  "closed_region lhs rhs = lhs\<lparr>mapped_end := mapped_end rhs\<rparr>"

definition encompassing_region :: "GenomicRegion \<Rightarrow> GenomicRegion \<Rightarrow> GenomicRegion" where
  "encompassing_region lhs rhs =
     lhs\<lparr>mapped_begin := min (mapped_begin lhs) (mapped_begin rhs),
         mapped_end := max (mapped_end lhs) (mapped_end rhs)\<rparr>"

definition overlapped_region :: "GenomicRegion \<Rightarrow> GenomicRegion \<Rightarrow> GenomicRegion" where
  "overlapped_region lhs rhs =
     (if overlaps lhs rhs
      then lhs\<lparr>mapped_begin := max (mapped_begin lhs) (mapped_begin rhs),
               mapped_end := min (mapped_end lhs) (mapped_end rhs)\<rparr>
      else lhs\<lparr>mapped_begin := 0, mapped_end := 0\<rparr>)"

definition left_overhang_region :: "GenomicRegion \<Rightarrow> GenomicRegion \<Rightarrow> GenomicRegion" where
  "left_overhang_region lhs rhs =
     (if begins_before rhs lhs then lhs\<lparr>mapped_end := mapped_begin lhs\<rparr>
      else lhs\<lparr>mapped_end := mapped_begin rhs\<rparr>)"

definition right_overhang_region :: "GenomicRegion \<Rightarrow> GenomicRegion \<Rightarrow> GenomicRegion" where
  "right_overhang_region lhs rhs =
     (if ends_before lhs rhs then lhs\<lparr>mapped_begin := mapped_end lhs\<rparr>
      else lhs\<lparr>mapped_begin := mapped_end rhs\<rparr>)"

text \<open>The two expansions take a signed distance; a negative one shrinks the region.\<close>

definition expand_lhs :: "GenomicRegion \<Rightarrow> int \<Rightarrow> GenomicRegion" where
  "expand_lhs r n = r\<lparr>mapped_begin := nat (int (mapped_begin r) - n)\<rparr>"

definition expand_rhs :: "GenomicRegion \<Rightarrow> int \<Rightarrow> GenomicRegion" where
  "expand_rhs r n = r\<lparr>mapped_end := nat (int (mapped_end r) + n)\<rparr>"

text \<open>
  A candidate variant: the region of its reference allele and the two sequences. A flat
  set of candidates is a list kept in the order of the set.
\<close>

record Variant =
  variant_region :: GenomicRegion
  ref_sequence :: string
  alt_sequence :: string

definition overlap_range :: "Variant list \<Rightarrow> GenomicRegion \<Rightarrow> Variant list" where
  "overlap_range candidates r = filter (\<lambda>c. overlaps (variant_region c) r) candidates"

text \<open>
  The leftmost element of a range is its first least element in the order of regions
  (begin, then end); the rightmost is its first greatest element by end, then begin.
  Both are taken of non-empty ranges only.
\<close>

definition region_less :: "GenomicRegion \<Rightarrow> GenomicRegion \<Rightarrow> bool" where
  "region_less lhs rhs =
     (mapped_begin lhs < mapped_begin rhs
      \<or> (mapped_begin lhs = mapped_begin rhs \<and> mapped_end lhs < mapped_end rhs))"

definition rightmost_less :: "GenomicRegion \<Rightarrow> GenomicRegion \<Rightarrow> bool" where
  "rightmost_less lhs rhs =
     (if ends_equal lhs rhs then begins_before lhs rhs else ends_before lhs rhs)"

fun leftmost_mappable :: "Variant \<Rightarrow> Variant list \<Rightarrow> Variant" where
  "leftmost_mappable best [] = best"
| "leftmost_mappable best (c # cs) =
     leftmost_mappable (if region_less (variant_region c) (variant_region best) then c else best) cs"

fun rightmost_mappable :: "Variant \<Rightarrow> Variant list \<Rightarrow> Variant" where
  "rightmost_mappable best [] = best"
| "rightmost_mappable best (c # cs) =
     rightmost_mappable (if rightmost_less (variant_region best) (variant_region c) then c else best) cs"

section \<open>Flank regions of the likelihood model\<close>

text \<open>
  \<^verbatim>\<open>calculate_flank_regions\<close> (\<^verbatim>\<open>variant_caller.cpp\<close>). The assertion that some candidate
  overlaps the active region is a failure of its own; past it the two extreme candidates
  exist.
\<close>

datatype failure = AssertionFailed

definition calculate_flank_regions ::
  "GenomicRegion \<Rightarrow> GenomicRegion \<Rightarrow> Variant list \<Rightarrow> failure + GenomicRegion \<times> GenomicRegion" where
  "calculate_flank_regions haplotype_region active_region candidates =
     (let lhs_flank = left_overhang_region haplotype_region active_region;
          rhs_flank = right_overhang_region haplotype_region active_region
      in case overlap_range candidates active_region of
        [] \<Rightarrow> Inl AssertionFailed
      | first_active # more_active \<Rightarrow>
          let lhs_flank =
                (if is_empty (variant_region (leftmost_mappable first_active more_active))
                    \<and> \<not> is_empty lhs_flank
                 then expand_rhs lhs_flank (- 1) else lhs_flank);
              lhs_flank =
                (case overlap_range candidates lhs_flank of
                   [] \<Rightarrow> head_region lhs_flank
                 | c # cs \<Rightarrow> closed_region lhs_flank (variant_region (rightmost_mappable c cs)));
              rhs_flank =
                (if is_empty (variant_region (rightmost_mappable first_active more_active))
                    \<and> \<not> is_empty rhs_flank
                 then expand_lhs rhs_flank (- 1) else rhs_flank);
              rhs_flank =
                (case overlap_range candidates rhs_flank of
                   [] \<Rightarrow> tail_region rhs_flank
                 | c # cs \<Rightarrow>
                     closed_region (variant_region (leftmost_mappable c cs)) rhs_flank)
          in Inr (lhs_flank, rhs_flank))"

text \<open>The candidates that the function classifies as inactive on the left: those that
  overlap the left flank after the adjustment for a boundary insertion.\<close>

definition lhs_inactive_candidates ::
  "GenomicRegion \<Rightarrow> GenomicRegion \<Rightarrow> Variant list \<Rightarrow> Variant list" where
  "lhs_inactive_candidates haplotype_region active_region candidates =
     (let lhs_flank = left_overhang_region haplotype_region active_region
      in case overlap_range candidates active_region of
        [] \<Rightarrow> []
      | first_active # more_active \<Rightarrow>
          overlap_range candidates
            (if is_empty (variant_region (leftmost_mappable first_active more_active))
                \<and> \<not> is_empty lhs_flank
             then expand_rhs lhs_flank (- 1) else lhs_flank))"

definition rhs_inactive_candidates ::
  "GenomicRegion \<Rightarrow> GenomicRegion \<Rightarrow> Variant list \<Rightarrow> Variant list" where
  "rhs_inactive_candidates haplotype_region active_region candidates =
     (let rhs_flank = right_overhang_region haplotype_region active_region
      in case overlap_range candidates active_region of
        [] \<Rightarrow> []
      | first_active # more_active \<Rightarrow>
          overlap_range candidates
            (if is_empty (variant_region (rightmost_mappable first_active more_active))
                \<and> \<not> is_empty rhs_flank
             then expand_lhs rhs_flank (- 1) else rhs_flank))"

record FlankState =
  flank_active_region :: GenomicRegion
  flank_lhs :: GenomicRegion
  flank_rhs :: GenomicRegion

definition calculate_flank_state ::
  "GenomicRegion \<Rightarrow> GenomicRegion \<Rightarrow> Variant list \<Rightarrow> failure + FlankState" where
  "calculate_flank_state haplotype_region active_region candidates =
     (case calculate_flank_regions haplotype_region active_region candidates of
        Inl e \<Rightarrow> Inl e
      | Inr flanks \<Rightarrow>
          Inr \<lparr>flank_active_region = active_region, flank_lhs = fst flanks,
               flank_rhs = snd flanks\<rparr>)"

section \<open>The caller: construction and removable haplotypes\<close>

text \<open>
  \<^verbatim>\<open>VariantCaller\<close> (\<^verbatim>\<open>variant_caller.cpp\<close>). The constructor copies its parameters and
  fixes the least haplotype posterior at \<^verbatim>\<open>1e-15\<close>. Posteriors are \<^verbatim>\<open>double\<close> in the
  source and reals here: the double nearest to \<open>10\<^sup>-\<^sup>1\<^sup>5\<close> lies above it and its
  predecessor below, so a finite double is below the one exactly when it is below the
  other.
\<close>

datatype RefCallType = NoRefCalls | Positional | Blocked

record CallerParameters =
  parameter_max_haplotypes :: nat
  parameter_refcall_type :: RefCallType
  parameter_call_sites_only :: bool
  parameter_lag_haplotype_generation :: bool
  parameter_min_phase_score :: real

record VariantCaller =
  refcall_type :: RefCallType
  call_sites_only :: bool
  max_haplotypes :: nat
  min_haplotype_posterior :: real
  lag_haplotype_generation :: bool
  min_phase_score :: real

definition VariantCaller_ctor :: "CallerParameters \<Rightarrow> VariantCaller" where
  "VariantCaller_ctor parameters =
     \<lparr>refcall_type = parameter_refcall_type parameters,
      call_sites_only = parameter_call_sites_only parameters,
      max_haplotypes = parameter_max_haplotypes parameters,
      min_haplotype_posterior = 1 / 10 ^ 15,
      lag_haplotype_generation = parameter_lag_haplotype_generation parameters,
      min_phase_score = parameter_min_phase_score parameters\<rparr>"

definition refcalls_requested :: "VariantCaller \<Rightarrow> bool" where
  "refcalls_requested self = (refcall_type self \<noteq> NoRefCalls)"

text \<open>
  \<^verbatim>\<open>get_removable_haplotypes\<close> walks the map of haplotype posteriors (an association
  list in the order of the walk) and collects the haplotypes whose posterior is below
  the least posterior. Its assertion wants a haplotype and that the first one's region
  contains the given region; the region of a haplotype is a parameter.
\<close>

definition get_removable_haplotypes ::
  "VariantCaller \<Rightarrow> ('h \<Rightarrow> GenomicRegion) \<Rightarrow> 'h list \<Rightarrow> ('h \<times> real) list \<Rightarrow> GenomicRegion
     \<Rightarrow> failure + 'h list" where
  "get_removable_haplotypes self get_region haplotypes haplotype_posteriors region =
     (case haplotypes of
        [] \<Rightarrow> Inl AssertionFailed
      | front # _ \<Rightarrow>
          if \<not> contains (get_region front) region then Inl AssertionFailed
          else Inr (map fst (filter (\<lambda>p. snd p < min_haplotype_posterior self)
                               haplotype_posteriors)))"

section \<open>The caller: the loop over active regions\<close>

text \<open>
  One pass of the \<^verbatim>\<open>while (true)\<close> loop of \<^verbatim>\<open>VariantCaller::call\<close>. The haplotype
  generator, the likelihood cache, the haplotype filter, the latent model, the phaser
  and the progress meter are collaborators whose code is elsewhere: what they return
  during one pass is a record of answers, and every call made to them is an event of the
  trace, in the order of the source. The loop's own state is the set of candidates, the
  records made so far and the completed region.
\<close>

record ('h, 'c) answers =
  progress :: "'h list \<times> GenomicRegion"
  unique_haplotypes :: "'h list"
  filter_to_n_haplotypes :: "'h list \<times> 'h list"
  latent_haplotype_posteriors :: "('h \<times> real) list"
  try_phase :: "GenomicRegion option"
  phased_calls :: "'c list"
  tell_next_active_region :: GenomicRegion
  tell_next_active_region_again :: GenomicRegion
  unphased_calls :: "'c list"
  trimmed_unphased_calls :: "'c list"
  reference_calls :: "'c list"

datatype ('h, 'c) event =
    Progress
  | LogCompleted GenomicRegion
  | Populate "'h list" FlankState
  | FilterToNHaplotypes "'h list"
  | ClearProgress
  | EraseLikelihoods "'h list"
  | GeneratorRemove "'h list"
  | UniquelyKeep "'h list"
  | InferLatents "'h list"
  | ClearLikelihoods
  | TryPhase "'h list"
  | ForcePhase "'h list"
  | CallVariants "Variant list"
  | CallReference GenomicRegion
  | MakeRecords "'c list"
  | ForceForward GenomicRegion
  | TellNextActiveRegion

record ('h, 'c, 'r) loop_state =
  candidates :: "Variant list"
  records :: "'r list"
  completed_region :: GenomicRegion
  trace :: "('h, 'c) event list"

datatype control = Continue | Break

datatype 'e abort = Assertion | FactoryError 'e

definition log_events ::
  "('h, 'c) event list \<Rightarrow> ('h, 'c, 'r) loop_state \<Rightarrow> ('h, 'c, 'r) loop_state" where
  "log_events evs st = st\<lparr>trace := trace st @ evs\<rparr>"

text \<open>\<^verbatim>\<open>append_calls\<close> in the loop: the factory makes records of a non-empty list of
  calls, and may throw.\<close>

definition append_new_calls ::
  "('c list \<Rightarrow> 'e + 'r list) \<Rightarrow> 'c list \<Rightarrow> ('h, 'c, 'r) loop_state
     \<Rightarrow> 'e abort + ('h, 'c, 'r) loop_state" where
  "append_new_calls factory_make new_calls st =
     (if new_calls = [] then Inr st
      else case factory_make new_calls of
        Inl e \<Rightarrow> Inl (FactoryError e)
      | Inr new_records \<Rightarrow>
          Inr (log_events [MakeRecords new_calls] (st\<lparr>records := records st @ new_records\<rparr>)))"

definition remove_passed_candidates ::
  "Variant list \<Rightarrow> GenomicRegion \<Rightarrow> GenomicRegion \<Rightarrow> Variant list" where
  "remove_passed_candidates cs candidate_region haplotype_region =
     (if begins_before candidate_region haplotype_region
      then filter (\<lambda>c. \<not> overlaps (variant_region c)
                          (left_overhang_region candidate_region haplotype_region)) cs
      else cs)"

definition has_passed :: "GenomicRegion \<Rightarrow> GenomicRegion \<Rightarrow> bool" where
  "has_passed next_active_region active_region =
     (is_after next_active_region active_region \<and> active_region \<noteq> next_active_region)"

text \<open>The block that emits the calls of a phased left part and forces the generator
  past it; it returns the part of the active region that is still unphased.\<close>

definition phased_block ::
  "('c list \<Rightarrow> 'e + 'r list) \<Rightarrow> GenomicRegion \<Rightarrow> GenomicRegion \<Rightarrow> ('h, 'c) answers
     \<Rightarrow> ('h, 'c, 'r) loop_state \<Rightarrow> 'e abort + ('h, 'c, 'r) loop_state \<times> GenomicRegion" where
  "phased_block factory_make call_region active_region a st =
     (case try_phase a of
        None \<Rightarrow> Inr (st, active_region)
      | Some phase_region \<Rightarrow>
          if \<not> overlaps active_region call_region then Inr (st, active_region)
          else if is_empty phase_region then Inl Assertion
          else (case append_new_calls factory_make (phased_calls a)
                       (log_events [CallVariants (overlap_range (candidates st) phase_region)] st) of
                  Inl e \<Rightarrow> Inl e
                | Inr st' \<Rightarrow>
                    Inr (log_events
                           [ForceForward (right_overhang_region active_region phase_region)] st',
                         right_overhang_region active_region phase_region)))"

text \<open>The query for the next active region and, when the generator would not move on,
  the removal of the haplotypes of negligible posterior.\<close>

definition removal_block ::
  "VariantCaller \<Rightarrow> ('h \<Rightarrow> GenomicRegion) \<Rightarrow> GenomicRegion \<Rightarrow> GenomicRegion \<Rightarrow> 'h list
     \<Rightarrow> ('h, 'c) answers \<Rightarrow> ('h, 'c, 'r) loop_state
     \<Rightarrow> 'e abort + ('h, 'c, 'r) loop_state \<times> GenomicRegion" where
  "removal_block self get_region active_region unphased_active_region haplotypes a st =
     (let st = log_events [TellNextActiveRegion] st;
          next_active_region = tell_next_active_region a
      in if \<not> has_passed next_active_region active_region
         then (case get_removable_haplotypes self get_region haplotypes
                      (latent_haplotype_posteriors a) unphased_active_region of
                 Inl _ \<Rightarrow> Inl Assertion
               | Inr removable_haplotypes \<Rightarrow>
                   Inr (log_events [GeneratorRemove removable_haplotypes, TellNextActiveRegion] st,
                        tell_next_active_region_again a))
         else Inr (st, next_active_region))"

text \<open>The block that emits the calls, and the reference calls when requested, of the
  region the generator has passed.\<close>

definition emission_block ::
  "VariantCaller \<Rightarrow> ('c list \<Rightarrow> 'e + 'r list) \<Rightarrow> GenomicRegion \<Rightarrow> GenomicRegion \<Rightarrow> GenomicRegion
     \<Rightarrow> 'h list \<Rightarrow> ('h, 'c) answers \<Rightarrow> ('h, 'c, 'r) loop_state
     \<Rightarrow> 'e abort + ('h, 'c, 'r) loop_state" where
  "emission_block self factory_make call_region active_region next_active_region haplotypes a st =
     (if begins_before active_region next_active_region \<and> overlaps active_region call_region
      then
        let passed_region = left_overhang_region active_region next_active_region;
            uncalled_region = overlapped_region active_region passed_region;
            uncalled_region =
              (case try_phase a of
                 None \<Rightarrow> uncalled_region
               | Some phase_region \<Rightarrow>
                   if ends_before phase_region passed_region
                   then right_overhang_region passed_region phase_region
                   else uncalled_region);
            active_candidates = overlap_range (candidates st) uncalled_region
        in case (if active_candidates \<noteq> []
                 then let st = log_events [CallVariants active_candidates] st
                      in if unphased_calls a \<noteq> []
                         then append_new_calls factory_make (trimmed_unphased_calls a)
                                (log_events [ForcePhase haplotypes] st)
                         else Inr st
                 else Inr st) of
             Inl e \<Rightarrow> Inl e
           | Inr st \<Rightarrow>
               (case (if refcalls_requested self
                      then append_new_calls factory_make (reference_calls a)
                             (log_events [CallReference uncalled_region] st)
                      else Inr st) of
                  Inl e \<Rightarrow> Inl e
                | Inr st \<Rightarrow>
                    Inr (st\<lparr>completed_region :=
                              encompassing_region (completed_region st) passed_region\<rparr>))
      else Inr st)"

definition loop_body ::
  "VariantCaller \<Rightarrow> ('h \<Rightarrow> GenomicRegion) \<Rightarrow> ('c list \<Rightarrow> 'e + 'r list) \<Rightarrow> GenomicRegion
     \<Rightarrow> GenomicRegion \<Rightarrow> ('h, 'c) answers \<Rightarrow> ('h, 'c, 'r) loop_state
     \<Rightarrow> 'e abort + ('h, 'c, 'r) loop_state \<times> control" where
  "loop_body self get_region factory_make candidate_region call_region a st =
     (let haplotypes = fst (progress a);
          active_region = snd (progress a);
          st = log_events [Progress] st
      in case haplotypes of
        [] \<Rightarrow> Inr (log_events [LogCompleted active_region] st, Break)
      | front # _ \<Rightarrow>
          if is_after active_region call_region
          then Inr (log_events [LogCompleted active_region] st, Break)
          else
            let st = st\<lparr>candidates :=
                         remove_passed_candidates (candidates st) candidate_region (get_region front)\<rparr>
            in (case unique_haplotypes a of
              [] \<Rightarrow> Inl Assertion
            | unique_front # _ \<Rightarrow>
                (case calculate_flank_state (get_region unique_front) active_region (candidates st) of
                   Inl _ \<Rightarrow> Inl Assertion
                 | Inr flank_state \<Rightarrow>
                     let st = log_events [Populate (unique_haplotypes a) flank_state,
                                          FilterToNHaplotypes (unique_haplotypes a)] st;
                         haplotypes = fst (filter_to_n_haplotypes a);
                         removed_haplotypes = snd (filter_to_n_haplotypes a)
                     in if haplotypes = []
                        then Inr (log_events [ClearProgress] st, Continue)
                        else
                          let st = log_events
                                [EraseLikelihoods removed_haplotypes,
                                 GeneratorRemove removed_haplotypes,
                                 UniquelyKeep haplotypes,
                                 InferLatents haplotypes,
                                 ClearLikelihoods,
                                 TryPhase haplotypes] st
                          in (case phased_block factory_make call_region active_region a st of
                            Inl e \<Rightarrow> Inl e
                          | Inr phased \<Rightarrow>
                              (case removal_block self get_region active_region (snd phased)
                                      haplotypes a (fst phased) of
                                 Inl e \<Rightarrow> Inl e
                               | Inr removed \<Rightarrow>
                                   (case emission_block self factory_make call_region active_region
                                           (snd removed) haplotypes a (fst removed) of
                                      Inl e \<Rightarrow> Inl e
                                    | Inr st \<Rightarrow>
                                        Inr (log_events [LogCompleted active_region] st,
                                             Continue)))))))"

text \<open>
  The loop. It has no bound of its own: it ends when the generator returns no haplotypes
  or an active region after the call region, or when something throws. The answers of
  the collaborators are a list, one record for each pass; when the list is used up and
  the loop has not ended the result is \<open>None\<close>.
\<close>

fun call_loop ::
  "VariantCaller \<Rightarrow> ('h \<Rightarrow> GenomicRegion) \<Rightarrow> ('c list \<Rightarrow> 'e + 'r list) \<Rightarrow> GenomicRegion
     \<Rightarrow> GenomicRegion \<Rightarrow> ('h, 'c) answers list \<Rightarrow> ('h, 'c, 'r) loop_state
     \<Rightarrow> ('e abort + ('h, 'c, 'r) loop_state) option" where
  "call_loop self get_region factory_make candidate_region call_region [] st = None"
| "call_loop self get_region factory_make candidate_region call_region (a # as) st =
     (case loop_body self get_region factory_make candidate_region call_region a st of
        Inl e \<Rightarrow> Some (Inl e)
      | Inr (st', Break) \<Rightarrow> Some (Inr st')
      | Inr (st', Continue) \<Rightarrow>
          call_loop self get_region factory_make candidate_region call_region as st')"

section \<open>Calls\<close>

text \<open>
  The call objects that the record factory consumes (\<^verbatim>\<open>vcf_record_factory.cpp\<close> uses
  them through the interface of \<^verbatim>\<open>Call\<close>): the mapped region, the reference allele, a
  genotype call for each sample (the alleles of the genotype in their order, the
  posterior, an optional phase), the quality and an optional model posterior. Phred
  scores are their \<^verbatim>\<open>score()\<close>, a real.
\<close>

type_synonym SampleName = string

record Allele =
  allele_region :: GenomicRegion
  sequence :: string

record PhaseCall =
  phase_region :: GenomicRegion
  phase_score :: real

record GenotypeCall =
  genotype :: "Allele list"
  posterior :: real
  phase :: "PhaseCall option"

record Call =
  mapped_region :: GenomicRegion
  reference :: Allele
  genotype_calls :: "(SampleName \<times> GenotypeCall) list"
  quality :: real
  model_posterior :: "real option"

datatype call_error =
    InconsistentCallError SampleName Allele Allele
  | UnknownSample SampleName
  | OutOfRange
  | FailedAssertion
  | IntOutOfRange

text \<open>
  Modelled from the spec: the members of \<^verbatim>\<open>Call\<close> and the predicates on alleles
  (\<^verbatim>\<open>call.hpp\<close>, \<^verbatim>\<open>allele.hpp\<close>) are not among the sources. A genotype call is looked
  up by sample; a sample is phased when its genotype call has a phase; an allele is an
  insertion when its sequence is longer than its region.
\<close>

definition get_genotype_call :: "Call \<Rightarrow> SampleName \<Rightarrow> call_error + GenotypeCall" where
  "get_genotype_call call sample =
     (case map_of (genotype_calls call) sample of
        None \<Rightarrow> Inl (UnknownSample sample)
      | Some gc \<Rightarrow> Inr gc)"


definition is_phased :: "Call \<Rightarrow> SampleName \<Rightarrow> bool" where
  "is_phased call sample =
     (case map_of (genotype_calls call) sample of
        None \<Rightarrow> False
      | Some gc \<Rightarrow> phase gc \<noteq> None)"

definition all_phased :: "Call \<Rightarrow> bool" where
  "all_phased call = list_all (\<lambda>p. phase (snd p) \<noteq> None) (genotype_calls call)"

definition sequence_size :: "Allele \<Rightarrow> nat" where
  "sequence_size allele = length (sequence allele)"

definition is_insertion :: "Allele \<Rightarrow> bool" where
  "is_insertion allele = (sequence_size allele > region_size (allele_region allele))"

section \<open>Record factory: indel resolution\<close>



















section \<open>Record factory: records\<close>

text \<open>
  The record builder. A sample's genotype is stored with its alleles and a phasing. The
  writer of records is not among the sources; \<^verbatim>\<open>vcf_parser.cpp\<close> reads a genotype
  whose alleles are joined by \<^verbatim>\<open>|\<close> as \<^verbatim>\<open>Phasing::phased\<close> and one whose alleles are
  joined by \<^verbatim>\<open>/\<close> as \<^verbatim>\<open>Phasing::unphased\<close>, which is the separator of each phasing.
\<close>

datatype Phasing = phased | unphased

definition genotype_separator :: "Phasing \<Rightarrow> char" where
  "genotype_separator p = (case p of phased \<Rightarrow> CHR ''|'' | unphased \<Rightarrow> CHR ''/'')"

datatype field_value = IntValue int | NatValue nat | RealValue real | TextValue string

record VcfRecord =
  vcf_chrom :: string
  vcf_pos :: nat
  vcf_ref :: string
  vcf_alt :: "string list"
  vcf_qual :: real
  vcf_info :: "(string \<times> field_value) list"
  vcf_format :: "string list"
  vcf_genotypes :: "(SampleName \<times> string list \<times> Phasing) list"
  vcf_sample_fields :: "(SampleName \<times> string \<times> field_value) list"

definition Builder :: VcfRecord where
  "Builder = \<lparr>vcf_chrom = [], vcf_pos = 0, vcf_ref = [], vcf_alt = [], vcf_qual = 0,
              vcf_info = [], vcf_format = [], vcf_genotypes = [], vcf_sample_fields = []\<rparr>"

definition set_info :: "string \<Rightarrow> field_value \<Rightarrow> VcfRecord \<Rightarrow> VcfRecord" where
  "set_info key v record = record\<lparr>vcf_info := vcf_info record @ [(key, v)]\<rparr>"

definition set_sample_format :: "SampleName \<Rightarrow> string \<Rightarrow> field_value \<Rightarrow> VcfRecord \<Rightarrow> VcfRecord" where
  "set_sample_format sample key v record =
     record\<lparr>vcf_sample_fields := vcf_sample_fields record @ [(sample, key, v)]\<rparr>"

definition set_builder_genotype :: "SampleName \<Rightarrow> string list \<Rightarrow> Phasing \<Rightarrow> VcfRecord \<Rightarrow> VcfRecord" where
  "set_builder_genotype sample alleles p record =
     record\<lparr>vcf_genotypes := vcf_genotypes record @ [(sample, alleles, p)]\<rparr>"

text \<open>
  The statistics of the reads over a region come from functions on reads that are not
  among the sources; they are parameters, one for each statistic, already in the form
  in which the factory stores them.
\<close>

record read_statistics =
  count_samples_with_coverage :: "GenomicRegion \<Rightarrow> nat"
  sum_max_coverages :: "GenomicRegion \<Rightarrow> nat"
  strand_bias :: "GenomicRegion \<Rightarrow> string"
  rmq_base_quality :: "GenomicRegion \<Rightarrow> nat"
  rmq_mapping_quality :: "GenomicRegion \<Rightarrow> nat"
  count_mapq_zero :: "GenomicRegion \<Rightarrow> nat"
  max_coverage :: "SampleName \<Rightarrow> GenomicRegion \<Rightarrow> nat"
  sample_rmq_base_quality :: "SampleName \<Rightarrow> GenomicRegion \<Rightarrow> nat"
  sample_rmq_mapping_quality :: "SampleName \<Rightarrow> GenomicRegion \<Rightarrow> nat"

record VcfRecordFactory =
  factory_samples :: "SampleName list"
  sites_only :: bool
  statistics :: read_statistics

text \<open>\<^verbatim>\<open>std::round\<close> rounds to the nearest integer, halves away from zero.\<close>

definition std_round :: "real \<Rightarrow> int" where
  "std_round x = (if x \<ge> 0 then \<lfloor>x + 1 / 2\<rfloor> else - \<lfloor>- x + 1 / 2\<rfloor>)"

text \<open>
  \<^verbatim>\<open>static_cast<int>\<close> of a rounded double. An \<^verbatim>\<open>int\<close> has 32 bits; the conversion of
  a value outside its range is undefined, and is an error value of its own here.
\<close>

definition static_cast_int :: "int \<Rightarrow> call_error + int" where
  "static_cast_int n = (if - (2 ^ 31) \<le> n \<and> n < 2 ^ 31 then Inr n else Inl IntOutOfRange)"

text \<open>
  Modelled from the spec: \<^verbatim>\<open>maths::round\<close> (utils/maths.hpp) is not among the sources;
  the specification has the quality rounded to two decimals, that is to the nearest
  multiple of \<open>10\<^sup>-\<^sup>2\<close>.
\<close>

definition maths_round :: "real \<Rightarrow> nat \<Rightarrow> real" where
  "maths_round val precision = real_of_int (std_round (val * 10 ^ precision)) / 10 ^ precision"

definition replace_char :: "char \<Rightarrow> char \<Rightarrow> string \<Rightarrow> string" where
  "replace_char old new str = map (\<lambda>c. if c = old then new else c) str"

fun genotyped_sequences :: "Call \<Rightarrow> SampleName list \<Rightarrow> call_error + string list" where
  "genotyped_sequences call [] = Inr []"
| "genotyped_sequences call (sample # samples) =
     (case get_genotype_call call sample of
        Inl e \<Rightarrow> Inl e
      | Inr gc \<Rightarrow>
          (case genotyped_sequences call samples of
             Inl e \<Rightarrow> Inl e
           | Inr rest \<Rightarrow>
               Inr (map (\<lambda>allele. replace_char (CHR ''*'') (CHR ''~'') (sequence allele))
                      (genotype gc) @ rest)))"

definition extract_all_genotyped_alleles :: "Call \<Rightarrow> SampleName list \<Rightarrow> call_error + string list" where
  "extract_all_genotyped_alleles call samples =
     (case genotyped_sequences call samples of
        Inl e \<Rightarrow> Inl e
      | Inr result \<Rightarrow>
          Inr (map (replace_char (CHR ''~'') (CHR ''*''))
                 (remdups_adj (sort (filter (\<lambda>a. a \<noteq> ''.'') result)))))"

definition set_alt_alleles :: "Call \<Rightarrow> SampleName list \<Rightarrow> VcfRecord \<Rightarrow> call_error + VcfRecord" where
  "set_alt_alleles call samples record =
     (case extract_all_genotyped_alleles call samples of
        Inl e \<Rightarrow> Inl e
      | Inr alts \<Rightarrow>
          let alts = remove1 (sequence (reference call)) alts
          in if ''#'' \<in> set alts \<or> ''.'' \<in> set alts \<or> [] \<in> set alts then Inl FailedAssertion
             else Inr (record\<lparr>vcf_alt := alts\<rparr>))"

definition set_vcf_genotype :: "SampleName \<Rightarrow> GenotypeCall \<Rightarrow> VcfRecord \<Rightarrow> VcfRecord" where
  "set_vcf_genotype sample genotype_call record =
     set_builder_genotype sample (map sequence (genotype genotype_call)) phased record"

text \<open>The phase fields of a sample, written when the call is phased for the sample.\<close>

definition set_phase_fields ::
  "SampleName \<Rightarrow> PhaseCall option \<Rightarrow> VcfRecord \<Rightarrow> call_error + VcfRecord" where
  "set_phase_fields sample ph record =
     (case ph of
        None \<Rightarrow> Inr record
      | Some p \<Rightarrow>
          (case static_cast_int (std_round (phase_score p)) of
             Inl e \<Rightarrow> Inl e
           | Inr rounded \<Rightarrow>
               Inr (set_sample_format sample ''PQ'' (IntValue (min 99 rounded))
                      (set_sample_format sample ''PS''
                         (NatValue (mapped_begin (phase_region p) + 1)) record))))"

fun set_samples :: "VcfRecordFactory \<Rightarrow> Call \<Rightarrow> SampleName list \<Rightarrow> VcfRecord \<Rightarrow> call_error + VcfRecord" where
  "set_samples factory call [] result = Inr result"
| "set_samples factory call (sample # samples) result =
     (case get_genotype_call call sample of
        Inl e \<Rightarrow> Inl e
      | Inr genotype_call \<Rightarrow>
          (case static_cast_int (std_round (posterior genotype_call)) of
             Inl e \<Rightarrow> Inl e
           | Inr rounded \<Rightarrow>
               let region = mapped_region call;
                   gq = min 999 rounded;
                   result = set_vcf_genotype sample genotype_call result;
                   result = set_sample_format sample ''GQ'' (IntValue gq) result;
                   result = set_sample_format sample ''DP''
                              (NatValue (max_coverage (statistics factory) sample region)) result;
                   result = set_sample_format sample ''BQ''
                              (NatValue (sample_rmq_base_quality (statistics factory) sample region))
                              result;
                   result = set_sample_format sample ''MQ''
                              (NatValue (sample_rmq_mapping_quality (statistics factory) sample region))
                              result
               in (case (if is_phased call sample
                         then set_phase_fields sample (phase genotype_call) result
                         else Inr result) of
                     Inl e \<Rightarrow> Inl e
                   | Inr result \<Rightarrow> set_samples factory call samples result)))"

definition set_region_info :: "VcfRecordFactory \<Rightarrow> GenomicRegion \<Rightarrow> VcfRecord \<Rightarrow> VcfRecord" where
  "set_region_info factory region result =
     set_info ''MQ0'' (NatValue (count_mapq_zero (statistics factory) region))
       (set_info ''MQ'' (NatValue (rmq_mapping_quality (statistics factory) region))
          (set_info ''BQ'' (NatValue (rmq_base_quality (statistics factory) region))
             (set_info ''SB'' (TextValue (strand_bias (statistics factory) region))
                (set_info ''DP'' (NatValue (sum_max_coverages (statistics factory) region))
                   (set_info ''NS''
                      (NatValue (count_samples_with_coverage (statistics factory) region))
                      result)))))"

definition format_keys :: "bool \<Rightarrow> string list" where
  "format_keys all_are_phased =
     (if all_are_phased then [''GT'', ''GQ'', ''DP'', ''BQ'', ''MQ'', ''PS'', ''PQ'']
      else [''GT'', ''GQ'', ''DP'', ''BQ'', ''MQ''])"

text \<open>
  \<^verbatim>\<open>VcfRecordFactory::make\<close> on one call. \<^verbatim>\<open>Call::decorate\<close> is virtual, its overriders
  are not among the sources: it is a parameter that maps the builder to the decorated
  builder.
\<close>

definition make ::
  "VcfRecordFactory \<Rightarrow> (Call \<Rightarrow> VcfRecord \<Rightarrow> VcfRecord) \<Rightarrow> Call \<Rightarrow> call_error + VcfRecord" where
  "make factory decorate call =
     (let region = mapped_region call;
          result = Builder\<lparr>vcf_chrom := contig_name region, vcf_pos := mapped_begin region + 1,
                           vcf_ref := sequence (reference call)\<rparr>
      in case set_alt_alleles call (factory_samples factory) result of
        Inl e \<Rightarrow> Inl e
      | Inr result \<Rightarrow>
          let result = result\<lparr>vcf_qual := min 5000 (maths_round (quality call) 2)\<rparr>;
              result = set_region_info factory region result;
              result = (case model_posterior call of
                          None \<Rightarrow> result
                        | Some mp \<Rightarrow> set_info ''MP'' (RealValue (maths_round mp 2)) result)
          in if sites_only factory then Inr (decorate call result)
             else (case set_samples factory call (factory_samples factory)
                          (result\<lparr>vcf_format := format_keys (all_phased call)\<rparr>) of
                     Inl e \<Rightarrow> Inl e
                   | Inr result \<Rightarrow> Inr (decorate call result)))"

text \<open>
  \<^verbatim>\<open>VcfRecordFactory::make_segment\<close> merges the calls of one segment into one record.
  For each sample the genotype starts as the sequences of the first call's genotype, and
  every later call replaces, position by position, the current sequence by its own
  allele unless that allele is shorter, or starts with \<^verbatim>\<open>.\<close> or \<^verbatim>\<open>*\<close>, or is the
  reference sequence.
\<close>

definition pick_allele :: "string \<Rightarrow> Allele \<Rightarrow> string \<Rightarrow> string" where
  "pick_allele ref allele current =
     (let seq = sequence allele
      in if length seq < length current
            \<or> (seq \<noteq> [] \<and> (hd seq = CHR ''.'' \<or> hd seq = CHR ''*'' \<or> seq = ref))
         then current else seq)"

fun merge_genotype :: "string \<Rightarrow> Allele list \<Rightarrow> string list \<Rightarrow> call_error + string list" where
  "merge_genotype ref [] resolved = Inr resolved"
| "merge_genotype ref (allele # alleles) [] = Inl OutOfRange"
| "merge_genotype ref (allele # alleles) (current # resolved) =
     (case merge_genotype ref alleles resolved of
        Inl e \<Rightarrow> Inl e
      | Inr rest \<Rightarrow> Inr (pick_allele ref allele current # rest))"

fun merge_calls :: "string \<Rightarrow> SampleName \<Rightarrow> Call list \<Rightarrow> string list \<Rightarrow> call_error + string list" where
  "merge_calls ref sample [] resolved = Inr resolved"
| "merge_calls ref sample (call # calls) resolved =
     (case get_genotype_call call sample of
        Inl e \<Rightarrow> Inl e
      | Inr gc \<Rightarrow>
          (case merge_genotype ref (genotype gc) resolved of
             Inl e \<Rightarrow> Inl e
           | Inr resolved' \<Rightarrow> merge_calls ref sample calls resolved'))"

fun resolve_genotypes ::
  "string \<Rightarrow> Call \<Rightarrow> Call list \<Rightarrow> SampleName list \<Rightarrow> call_error + string list list" where
  "resolve_genotypes ref front later [] = Inr []"
| "resolve_genotypes ref front later (sample # samples) =
     (case get_genotype_call front sample of
        Inl e \<Rightarrow> Inl e
      | Inr first_called \<Rightarrow>
          (case merge_calls ref sample later (map sequence (genotype first_called)) of
             Inl e \<Rightarrow> Inl e
           | Inr resolved \<Rightarrow>
               (case resolve_genotypes ref front later samples of
                  Inl e \<Rightarrow> Inl e
                | Inr rest \<Rightarrow> Inr (resolved # rest))))"

text \<open>\<^verbatim>\<open>std::min_element\<close> by quality: the first call of the least quality.\<close>

fun min_quality_call :: "Call \<Rightarrow> Call list \<Rightarrow> Call" where
  "min_quality_call best [] = best"
| "min_quality_call best (call # calls) =
     min_quality_call (if quality call < quality best then call else best) calls"

definition get_model_posterior :: "Call list \<Rightarrow> real option" where
  "get_model_posterior calls =
     (case List.map_filter model_posterior calls of
        [] \<Rightarrow> None
      | mp # mps \<Rightarrow> Some (fold max mps mp))"

fun set_segment_samples ::
  "VcfRecordFactory \<Rightarrow> Call \<Rightarrow> SampleName list \<Rightarrow> string list list \<Rightarrow> VcfRecord
     \<Rightarrow> call_error + VcfRecord" where
  "set_segment_samples factory front [] resolved_genotypes result = Inr result"
| "set_segment_samples factory front (sample # samples) [] result = Inl OutOfRange"
| "set_segment_samples factory front (sample # samples) (resolved # resolved_genotypes) result =
     (case get_genotype_call front sample of
        Inl e \<Rightarrow> Inl e
      | Inr genotype_call \<Rightarrow>
          (case static_cast_int (std_round (posterior genotype_call)) of
             Inl e \<Rightarrow> Inl e
           | Inr rounded \<Rightarrow>
               let region = mapped_region front;
                   gq = min 999 rounded;
                   result = set_builder_genotype sample resolved phased result;
                   result = set_sample_format sample ''GQ'' (IntValue gq) result;
                   result = set_sample_format sample ''DP''
                              (NatValue (max_coverage (statistics factory) sample region)) result;
                   result = set_sample_format sample ''BQ''
                              (NatValue (sample_rmq_base_quality (statistics factory) sample region))
                              result;
                   result = set_sample_format sample ''MQ''
                              (NatValue (sample_rmq_mapping_quality (statistics factory) sample region))
                              result
               in (case (if is_phased front sample
                         then set_phase_fields sample (phase genotype_call) result
                         else Inr result) of
                     Inl e \<Rightarrow> Inl e
                   | Inr result \<Rightarrow>
                       set_segment_samples factory front samples resolved_genotypes result)))"

definition make_segment ::
  "VcfRecordFactory \<Rightarrow> (Call \<Rightarrow> VcfRecord \<Rightarrow> VcfRecord) \<Rightarrow> Call list \<Rightarrow> call_error + VcfRecord" where
  "make_segment factory decorate calls =
     (case calls of
        [] \<Rightarrow> Inl FailedAssertion
      | [call] \<Rightarrow> make factory decorate call
      | front # later \<Rightarrow>
          let region = mapped_region front;
              ref = sequence (reference front);
              result = Builder\<lparr>vcf_chrom := contig_name region, vcf_pos := mapped_begin region + 1,
                               vcf_ref := ref\<rparr>
          in (case resolve_genotypes ref front later (factory_samples factory) of
                Inl e \<Rightarrow> Inl e
              | Inr resolved_genotypes \<Rightarrow>
                  let alt_alleles =
                        remdups_adj (sort (filter (\<lambda>a. a \<noteq> ref)
                                             (filter (\<lambda>a. a \<noteq> ''.'') (concat resolved_genotypes))));
                      result = result\<lparr>vcf_alt := alt_alleles\<rparr>;
                      q = min_quality_call front later;
                      result = result\<lparr>vcf_qual := min 5000 (maths_round (quality q) 2)\<rparr>;
                      result = set_region_info factory region result;
                      result = (case get_model_posterior calls of
                                  None \<Rightarrow> result
                                | Some mp \<Rightarrow> set_info ''MP'' (RealValue (maths_round mp 2)) result)
                  in if sites_only factory then Inr (fold decorate calls result)
                     else (case set_segment_samples factory front (factory_samples factory)
                                  resolved_genotypes
                                  (result\<lparr>vcf_format := format_keys (all_phased front)\<rparr>) of
                             Inl e \<Rightarrow> Inl e
                           | Inr result \<Rightarrow> Inr (fold decorate calls result))))"

section \<open>Vocabulary of the properties\<close>


text \<open>
  The alleles of a sample's genotype in a call are paired, position by position, with
  the alleles of the same sample in an insertion call, as the source's \<^verbatim>\<open>transform\<close>
  pairs them. A pair is inconsistent when the allele of the insertion call is an
  insertion and the other allele is no longer than it; a sample's genotype in a call is
  inconsistent with the insertion call when one of its pairs is. An error names an
  inconsistent pair of a call when it is an \<^verbatim>\<open>InconsistentCallError\<close> with a sample of
  the factory and an inconsistent pair of that sample's alleles.
\<close>

definition inconsistent_pair :: "Allele \<times> Allele \<Rightarrow> bool" where
  "inconsistent_pair p =
     (is_insertion (snd p) \<and> length (sequence (fst p)) \<le> sequence_size (snd p))"

definition paired_alleles :: "Call \<Rightarrow> SampleName \<Rightarrow> Call \<Rightarrow> (Allele \<times> Allele) list" where
  "paired_alleles insertion sample call =
     (case get_genotype_call insertion sample of
        Inl _ \<Rightarrow> []
      | Inr ic \<Rightarrow>
          (case get_genotype_call call sample of
             Inl _ \<Rightarrow> []
           | Inr sc \<Rightarrow> zip (genotype sc) (genotype ic)))"


definition inconsistent_call_error :: "SampleName list \<Rightarrow> Call \<Rightarrow> Call \<Rightarrow> call_error \<Rightarrow> bool" where
  "inconsistent_call_error samples insertion call e =
     (case e of
        InconsistentCallError s a1 a2 \<Rightarrow>
          s \<in> set samples \<and> (a1, a2) \<in> set (paired_alleles insertion s call)
          \<and> inconsistent_pair (a1, a2)
      | _ \<Rightarrow> False)"



definition strip_allele :: "(nat \<Rightarrow> string \<Rightarrow> string) \<Rightarrow> Allele \<times> Allele \<Rightarrow> string" where
  "strip_allele trim p =
     (if is_insertion (snd p) then trim (sequence_size (snd p)) (sequence (fst p))
      else sequence (fst p))"

definition strip_genotype ::
  "(nat \<Rightarrow> string \<Rightarrow> string) \<Rightarrow> Call \<Rightarrow> SampleName \<Rightarrow> Call \<Rightarrow> Allele list" where
  "strip_genotype trim insertion sample call =
     (let pairs = paired_alleles insertion sample call
      in map (\<lambda>p. \<lparr>allele_region = allele_region (fst (hd pairs)),
                    sequence = strip_allele trim p\<rparr>) pairs)"

definition strip_call :: "(nat \<Rightarrow> string \<Rightarrow> string) \<Rightarrow> SampleName list \<Rightarrow> Call \<Rightarrow> Call \<Rightarrow> Call" where
  "strip_call trim samples insertion call =
     call\<lparr>genotype_calls :=
            map (\<lambda>p. if fst p \<in> set samples
                      then (fst p, (snd p)\<lparr>genotype := strip_genotype trim insertion (fst p) call\<rparr>)
                      else p)
              (genotype_calls call)\<rparr>"

definition strip_range :: "(Call \<Rightarrow> Call) \<Rightarrow> nat \<Rightarrow> nat \<Rightarrow> Call list \<Rightarrow> Call list" where
  "strip_range strip lo hi calls =
     take lo calls @ map strip (take (hi - lo) (drop lo calls)) @ drop hi calls"








text \<open>
  The state in which a pass of the caller's loop leaves the loop when the haplotype
  filter left no haplotype: the candidates that the haplotypes have passed are removed,
  and the calls made in the pass are the generator's \<^verbatim>\<open>progress\<close>, the population of the
  likelihood cache, the filter and the generator's \<^verbatim>\<open>clear_progress\<close>, the last one.
\<close>

definition after_clear_progress ::
  "('h \<Rightarrow> GenomicRegion) \<Rightarrow> GenomicRegion \<Rightarrow> ('h, 'c) answers \<Rightarrow> FlankState
     \<Rightarrow> ('h, 'c, 'r) loop_state \<Rightarrow> ('h, 'c, 'r) loop_state" where
  "after_clear_progress get_region candidate_region a flank_state st =
     st\<lparr>candidates := remove_passed_candidates (candidates st) candidate_region
                            (get_region (hd (fst (progress a)))),
        trace := trace st @ [Progress, Populate (unique_haplotypes a) flank_state,
                             FilterToNHaplotypes (unique_haplotypes a), ClearProgress]\<rparr>"

section \<open>Example inputs\<close>

text \<open>Concrete regions, candidates and one pass of the loop, on which the properties
  below are exercised.\<close>

definition chr1 :: "nat \<Rightarrow> nat \<Rightarrow> GenomicRegion" where
  "chr1 b e = \<lparr>contig_name = ''1'', mapped_begin = b, mapped_end = e\<rparr>"

definition insertion_at_10 :: Variant where
  "insertion_at_10 = \<lparr>variant_region = chr1 10 10, ref_sequence = [], alt_sequence = ''A''\<rparr>"

definition insertion_at_20 :: Variant where
  "insertion_at_20 = \<lparr>variant_region = chr1 20 20, ref_sequence = [], alt_sequence = ''G''\<rparr>"

definition snv_at :: "nat \<Rightarrow> Variant" where
  "snv_at b = \<lparr>variant_region = chr1 b (b + 1), ref_sequence = ''C'', alt_sequence = ''T''\<rparr>"

definition example_candidates :: "Variant list" where
  "example_candidates = [snv_at 5, insertion_at_10, snv_at 15, insertion_at_20, snv_at 25]"

definition example_parameters :: CallerParameters where
  "example_parameters =
     \<lparr>parameter_max_haplotypes = 128, parameter_refcall_type = NoRefCalls,
      parameter_call_sites_only = False, parameter_lag_haplotype_generation = True,
      parameter_min_phase_score = 20\<rparr>"

definition example_answers :: "(nat, nat) answers" where
  "example_answers =
     \<lparr>progress = ([1, 2, 3], chr1 5 15), unique_haplotypes = [1, 2, 3],
      filter_to_n_haplotypes = ([1, 2, 3], []),
      latent_haplotype_posteriors = [(1, 9 / 10), (2, 0), (3, 1 / 10 ^ 16)],
      try_phase = None, phased_calls = [], tell_next_active_region = chr1 5 15,
      tell_next_active_region_again = chr1 20 30, unphased_calls = [],
      trimmed_unphased_calls = [], reference_calls = []\<rparr>"

definition example_answers_all_filtered :: "(nat, nat) answers" where
  "example_answers_all_filtered = example_answers\<lparr>filter_to_n_haplotypes := ([], [1, 2, 3])\<rparr>"

text \<open>Answers of a pass in which the generator has no haplotypes left.\<close>

definition example_answers_end :: "(nat, nat) answers" where
  "example_answers_end = example_answers\<lparr>progress := ([], chr1 20 30)\<rparr>"

definition example_state :: "(nat, nat, nat) loop_state" where
  "example_state =
     \<lparr>candidates = [snv_at 10], records = [], completed_region = chr1 0 0, trace = []\<rparr>"

definition example_flank_state :: FlankState where
  "example_flank_state =
     \<lparr>flank_active_region = chr1 5 15, flank_lhs = chr1 0 0, flank_rhs = chr1 20 20\<rparr>"

definition example_state_after_pass :: "(nat, nat, nat) loop_state" where
  "example_state_after_pass =
     example_state\<lparr>completed_region := chr1 0 20,
       trace := [Progress, Populate [1, 2, 3] example_flank_state,
                 FilterToNHaplotypes [1, 2, 3], EraseLikelihoods [], GeneratorRemove [],
                 UniquelyKeep [1, 2, 3], InferLatents [1, 2, 3], ClearLikelihoods,
                 TryPhase [1, 2, 3], TellNextActiveRegion, GeneratorRemove [2, 3],
                 TellNextActiveRegion, CallVariants [snv_at 10], LogCompleted (chr1 5 15)]\<rparr>"

text \<open>Calls of one sample with two haplotypes around an insertion of \<^verbatim>\<open>AC\<close> at
  position 10 that the second haplotype carries.\<close>

definition example_call :: "GenomicRegion \<Rightarrow> string \<Rightarrow> string list \<Rightarrow> Call" where
  "example_call region ref_seq alleles =
     \<lparr>mapped_region = region, reference = \<lparr>allele_region = region, sequence = ref_seq\<rparr>,
      genotype_calls =
        [(''NA1'', \<lparr>genotype = map (\<lambda>s. \<lparr>allele_region = region, sequence = s\<rparr>) alleles,
                     posterior = 30, phase = None\<rparr>)],
      quality = 50, model_posterior = None\<rparr>"


definition example_samples :: "SampleName list" where
  "example_samples = [''NA1'']"







text \<open>A factory of one sample, and calls of one site: the sample is not phased in any of
  them, and they differ in their quality.\<close>

definition example_statistics :: read_statistics where
  "example_statistics =
     \<lparr>count_samples_with_coverage = (\<lambda>r. 1), sum_max_coverages = (\<lambda>r. 30),
      strand_bias = (\<lambda>r. ''0.50''), rmq_base_quality = (\<lambda>r. 35),
      rmq_mapping_quality = (\<lambda>r. 60), count_mapq_zero = (\<lambda>r. 0),
      max_coverage = (\<lambda>s r. 30), sample_rmq_base_quality = (\<lambda>s r. 35),
      sample_rmq_mapping_quality = (\<lambda>s r. 60)\<rparr>"

definition example_factory :: VcfRecordFactory where
  "example_factory =
     \<lparr>factory_samples = example_samples, sites_only = False, statistics = example_statistics\<rparr>"

definition unphased_call :: Call where
  "unphased_call = example_call (chr1 9 10) ''G'' [''G'', ''T'']"

definition first_call :: Call where
  "first_call = (example_call (chr1 9 10) ''G'' [''G'', ''T''])\<lparr>quality := 10\<rparr>"

definition second_call :: Call where
  "second_call = (example_call (chr1 9 10) ''G'' [''G'', ''C''])\<lparr>quality := 20\<rparr>"

section \<open>Properties of the trio caller\<close>

text \<open>
  C1, as the specification states it, fails. A child ploidy of 0 with both parents of
  ploidy 2 satisfies the stated contract and the constructor throws; a child ploidy of 2
  with both parents of ploidy 0 violates it and the constructor accepts (here with a
  largest ploidy of 3).
\<close>

theorem TrioCaller_ctor_contract_counterexample:
  "spec_trio_ploidy_contract \<lparr>maternal_ploidy = 2, paternal_ploidy = 2, child_ploidy = 0\<rparr>
   \<and> TrioCaller_ctor 3 \<lparr>maternal_ploidy = 2, paternal_ploidy = 2, child_ploidy = 0\<rparr>
       = Inl (LogicError
          ''There must be at least one inherited haplotype if both parents have zygosity'')
   \<and> \<not> spec_trio_ploidy_contract \<lparr>maternal_ploidy = 0, paternal_ploidy = 0, child_ploidy = 2\<rparr>
   \<and> TrioCaller_ctor 3 \<lparr>maternal_ploidy = 0, paternal_ploidy = 0, child_ploidy = 2\<rparr>
       = Inr \<lparr>maternal_ploidy = 0, paternal_ploidy = 0, child_ploidy = 2\<rparr>"
  by (simp add: TrioCaller_ctor_def spec_trio_ploidy_contract_def)

text \<open>
  C1, amended: the constructor throws exactly when all three ploidies are 0, or the
  child ploidy is 0 while both parents have a positive ploidy, or some ploidy is above
  the largest ploidy of the trio model; every other combination is accepted and the
  parameters are kept as they are. So with child ploidy 0 exactly one parent has
  ploidy 0, and a positive child ploidy leaves the parents free up to the largest
  ploidy.
\<close>

theorem TrioCaller_ctor_rejects_exactly:
  "isl (TrioCaller_ctor max_ploidy p) =
     ((maternal_ploidy p = 0 \<and> paternal_ploidy p = 0 \<and> child_ploidy p = 0)
      \<or> (child_ploidy p = 0 \<and> maternal_ploidy p > 0 \<and> paternal_ploidy p > 0)
      \<or> (maternal_ploidy p > max_ploidy \<or> paternal_ploidy p > max_ploidy
          \<or> child_ploidy p > max_ploidy))
   \<and> (TrioCaller_ctor max_ploidy p = Inr p \<or> isl (TrioCaller_ctor max_ploidy p))
   \<and> (child_ploidy p = 0 \<and> \<not> isl (TrioCaller_ctor max_ploidy p)) =
       (child_ploidy p = 0 \<and> (maternal_ploidy p = 0) \<noteq> (paternal_ploidy p = 0)
        \<and> maternal_ploidy p \<le> max_ploidy \<and> paternal_ploidy p \<le> max_ploidy)"
  by (auto simp: TrioCaller_ctor_def)

text \<open>
  C10: the trio caller's \<^verbatim>\<open>call_reference\<close> returns no reference calls, whatever the
  alleles, the trio latents and the pileups; through the public overload the same holds
  for trio latents; and the loop's \<^verbatim>\<open>append_calls\<close> adds no record for them.
\<close>

theorem call_reference_empty:
  "call_reference alleles latents pileups = []
   \<and> call_reference_public alleles (TrioLatents latents) pileups = Inr []
   \<and> append_new_calls factory_make (call_reference alleles latents pileups) st = Inr st"
  by (simp add: call_reference_def call_reference_public_def append_new_calls_def)

lemma exp_ln_normal_prior: "exp (ln normalModelPrior + a) = normalModelPrior * exp a"
  by (simp add: exp_add normalModelPrior_def)

lemma exp_ln_dummy_prior: "exp (ln dummyModelPrior + a) = dummyModelPrior * exp a"
  by (simp add: exp_add normalModelPrior_def dummyModelPrior_def)

lemma model_prior_values:
  "normalModelPrior = 1 - 1 / 10 ^ 7" "dummyModelPrior = 1 / 10 ^ 7"
  by (simp_all add: normalModelPrior_def dummyModelPrior_def)

lemma model_posterior_ratio:
  "calculate_model_posterior n d =
     normalModelPrior * exp n / (normalModelPrior * exp n + dummyModelPrior * exp d)"
proof -
  have pos: "0 < exp (ln normalModelPrior + n) + exp (ln dummyModelPrior + d)"
    by (simp add: add_pos_pos)
  show ?thesis
    unfolding calculate_model_posterior_def log_sum_exp_def Let_def
    using pos by (simp add: exp_diff exp_ln_normal_prior exp_ln_dummy_prior)
qed

lemma model_posterior_explicit:
  "calculate_model_posterior l_n l_d =
     exp (l_n + ln (1 - 1 / 10 ^ 7))
       / (exp (l_n + ln (1 - 1 / 10 ^ 7)) + exp (l_d + ln (1 / 10 ^ 7)))"
proof -
  have a: "exp (l_n + ln (1 - 1 / 10 ^ 7)) = normalModelPrior * exp l_n"
    using exp_ln_normal_prior [of l_n] by (simp add: model_prior_values add.commute)
  have b: "exp (l_d + ln (1 / 10 ^ 7)) = dummyModelPrior * exp l_d"
    using exp_ln_dummy_prior [of l_d] by (simp add: model_prior_values add.commute)
  show ?thesis unfolding a b by (rule model_posterior_ratio)
qed

lemma ratio_as_logistic:
  fixes a b :: real
  assumes "0 < a" "0 < b"
  shows "a / (a + b) = 1 / (1 + b / a)"
proof -
  have "1 + b / a = (a + b) / a" using assms by (simp add: field_simps)
  then show ?thesis using assms by simp
qed

lemma model_posterior_sigmoid:
  "calculate_model_posterior l_n l_d = sigmoid (l_n - l_d + log_prior_odds)"
proof -
  have odds: "exp log_prior_odds = normalModelPrior / dummyModelPrior"
    by (simp add: log_prior_odds_def model_prior_values)
  have e: "exp (- (l_n - l_d + log_prior_odds))
             = dummyModelPrior * exp l_d / (normalModelPrior * exp l_n)"
  proof -
    have "exp (- (l_n - l_d + log_prior_odds)) = exp l_d / (exp l_n * exp log_prior_odds)"
      by (simp add: exp_minus exp_add exp_diff field_simps)
    also have "\<dots> = dummyModelPrior * exp l_d / (normalModelPrior * exp l_n)"
      unfolding odds by (simp add: model_prior_values)
    finally show ?thesis .
  qed
  have pn: "0 < normalModelPrior * exp l_n" by (simp add: model_prior_values)
  have pd: "0 < dummyModelPrior * exp l_d" by (simp add: model_prior_values)
  show ?thesis
    unfolding model_posterior_ratio sigmoid_def e by (rule ratio_as_logistic [OF pn pd])
qed

lemma model_posterior_bounds:
  "0 \<le> calculate_model_posterior l_n l_d \<and> calculate_model_posterior l_n l_d \<le> 1"
proof -
  have pn: "0 < normalModelPrior * exp l_n" by (simp add: model_prior_values)
  have pd: "0 < dummyModelPrior * exp l_d" by (simp add: model_prior_values)
  show ?thesis unfolding model_posterior_ratio using pn pd by (simp add: field_simps)
qed

text \<open>
  C6: over the reals the model posterior of the trio caller is the logistic function of
  the difference of the two log evidences plus the log prior odds of the normal model,
  whose prior is \<open>1 - 10\<^sup>-\<^sup>7\<close>; it is the normalised weight
  \<open>exp (l\<^sub>n + ln (1 - 10\<^sup>-\<^sup>7)) / (exp (l\<^sub>n + ln (1 - 10\<^sup>-\<^sup>7)) + exp (l\<^sub>d + ln 10\<^sup>-\<^sup>7))\<close>
  and lies between 0 and 1. The member function returns this value whenever it returns
  a posterior at all.
\<close>

theorem calculate_model_posterior_sigmoid_rule:
  "calculate_model_posterior l_n l_d = sigmoid (l_n - l_d + log_prior_odds)
   \<and> calculate_model_posterior l_n l_d =
       exp (l_n + ln (1 - 1 / 10 ^ 7))
         / (exp (l_n + ln (1 - 1 / 10 ^ 7)) + exp (l_d + ln (1 / 10 ^ 7)))
   \<and> 0 \<le> calculate_model_posterior l_n l_d \<and> calculate_model_posterior l_n l_d \<le> 1
   \<and> normalModelPrior = 1 - 1 / 10 ^ 7
   \<and> TrioCaller_calculate_model_posterior limit parameters l_n l_d =
       (if (max (maternal_ploidy parameters)
              (max (paternal_ploidy parameters) (child_ploidy parameters)) + 1) mod 2 ^ 32 \<le> limit
        then Some (sigmoid (l_n - l_d + log_prior_odds)) else None)"
  using model_posterior_sigmoid [of l_n l_d] model_posterior_explicit [of l_n l_d]
    model_posterior_bounds [of l_n l_d] model_prior_values(1)
  by (simp add: TrioCaller_calculate_model_posterior_def Let_def)

section \<open>Properties of the command line\<close>

text \<open>
  C3, as the specification states it, fails. On a command line that supplies both
  reference-call switches \<^verbatim>\<open>conflicting_options\<close> throws and \<^verbatim>\<open>parse_options\<close> catches
  the exception, prints it and returns no options: it sets no exit code. \<^verbatim>\<open>main\<close> does
  not call \<^verbatim>\<open>parse_options\<close> and does not read the command line: given that command
  line it starts the run on the mock options and returns 0; it returns 0 when there are
  no options and 1 when something throws, and never 2.
\<close>

theorem conflicting_refcalls_exit_code_counterexample:
  "conflicting_options both_refcalls_vm ''make-positional-refcalls'' ''make-blocked-refcalls''
     = Inl (logic_error
         ''conflicting options 'make-positional-refcalls' and 'make-blocked-refcalls'.'')
   \<and> parse_options [] [] (Inr both_refcalls_vm) (\<lambda>vm. Inr ())
     = ([''Option error: conflicting options 'make-positional-refcalls' and 'make-blocked-refcalls'.''],
        None)
   \<and> main both_refcalls_argv (Inr (Some example_mock_options)) (\<lambda>opts. None)
        ''10:00'' ''10:05'' ''5m''
     = \<lparr>cout = [''Octopus: started run at 10:00'',
                 ''Octopus: finished run at 10:05. Took 5m''],
        cerr = [], exit_code = 0\<rparr>
   \<and> exit_code (main both_refcalls_argv (Inr None) (\<lambda>opts. None) [] [] []) = 0
   \<and> exit_code (main both_refcalls_argv (Inl UnknownException) (\<lambda>opts. None) [] [] []) = 1"
  by (simp add: main_def parse_options_def option_checks_def caller_is_trio_def
      conflicting_options_def both_refcalls_vm_def example_mock_options_def is_run_command_def
      count_def is_defaulted_def EXIT_SUCCESS_def EXIT_FAILURE_def)

text \<open>
  C3, amended: \<^verbatim>\<open>conflicting_options\<close> throws exactly when both options are stored and
  neither is defaulted, so not when at most one of the two switches is supplied. When
  both reference-call switches are supplied and neither help nor version is asked for,
  \<^verbatim>\<open>parse_options\<close> prints an option error and returns no options; the error is the one
  of the conflict when the checks before it pass (reads are given and the caller is not
  the trio caller). \<^verbatim>\<open>main\<close> does not depend on the command line, and its exit code is
  0 or 1, never 2.
\<close>

theorem conflicting_refcalls_rejected:
  assumes "count vm ''make-positional-refcalls'' \<noteq> 0"
    and "\<not> is_defaulted vm ''make-positional-refcalls''"
    and "count vm ''make-blocked-refcalls'' \<noteq> 0"
    and "\<not> is_defaulted vm ''make-blocked-refcalls''"
    and "count vm ''help'' = 0" and "count vm ''version'' = 0"
  shows "isl (conflicting_options vm' opt1 opt2) =
           (count vm' opt1 \<noteq> 0 \<and> \<not> is_defaulted vm' opt1
            \<and> count vm' opt2 \<noteq> 0 \<and> \<not> is_defaulted vm' opt2)
         \<and> (count vm' ''make-positional-refcalls'' = 0 \<or> count vm' ''make-blocked-refcalls'' = 0
              \<longrightarrow> conflicting_options vm' ''make-positional-refcalls'' ''make-blocked-refcalls''
                    = Inr ())
         \<and> snd (parse_options description version (Inr vm) notify) = None
         \<and> (\<exists>e. fst (parse_options description version (Inr vm) notify) = [''Option error: '' @ what e])
         \<and> ((count vm ''reads'' \<noteq> 0 \<or> count vm ''reads-file'' \<noteq> 0) \<and> caller_is_trio vm = Inr False
              \<longrightarrow> parse_options description version (Inr vm) notify
                    = ([''Option error: conflicting options 'make-positional-refcalls' and 'make-blocked-refcalls'.''],
                       None))
         \<and> main argv mock_options run_octopus start finish took
             = main [] mock_options run_octopus start finish took
         \<and> (exit_code (main argv mock_options run_octopus start finish took) = 0
            \<or> exit_code (main argv mock_options run_octopus start finish took) = 1)
         \<and> exit_code (main argv mock_options run_octopus start finish took) \<noteq> 2"
proof -
  have conflict: "conflicting_options vm ''make-positional-refcalls'' ''make-blocked-refcalls''
      = Inl (logic_error
          ''conflicting options 'make-positional-refcalls' and 'make-blocked-refcalls'.'')"
    using assms by (simp add: conflicting_options_def)
  have checks: "isl (option_checks vm notify)"
    using conflict by (auto simp: option_checks_def split: sum.splits)
  then obtain e where e: "option_checks vm notify = Inl e"
    by (cases "option_checks vm notify") auto
  have parsed: "parse_options description version (Inr vm) notify = ([''Option error: '' @ what e], None)"
    using assms e by (simp add: parse_options_def)
  have precise: "(count vm ''reads'' \<noteq> 0 \<or> count vm ''reads-file'' \<noteq> 0) \<and> caller_is_trio vm = Inr False
              \<longrightarrow> parse_options description version (Inr vm) notify
                    = ([''Option error: conflicting options 'make-positional-refcalls' and 'make-blocked-refcalls'.''],
                       None)"
    using assms conflict by (auto simp: parse_options_def option_checks_def)
  have codes: "exit_code (main argv mock_options run_octopus start finish took) = 0
            \<or> exit_code (main argv mock_options run_octopus start finish took) = 1"
    by (auto simp: main_def Let_def EXIT_SUCCESS_def EXIT_FAILURE_def
        split: sum.splits option.splits thrown.splits)
  then have never: "exit_code (main argv mock_options run_octopus start finish took) \<noteq> 2"
    by auto
  have unread: "main argv mock_options run_octopus start finish took
             = main [] mock_options run_octopus start finish took"
    by (simp add: main_def)
  have iff: "isl (conflicting_options vm' opt1 opt2) =
           (count vm' opt1 \<noteq> 0 \<and> \<not> is_defaulted vm' opt1
            \<and> count vm' opt2 \<noteq> 0 \<and> \<not> is_defaulted vm' opt2)"
    by (simp add: conflicting_options_def)
  have one: "count vm' ''make-positional-refcalls'' = 0 \<or> count vm' ''make-blocked-refcalls'' = 0
              \<longrightarrow> conflicting_options vm' ''make-positional-refcalls'' ''make-blocked-refcalls''
                    = Inr ()"
    by (auto simp: conflicting_options_def)
  have msg: "\<exists>e. fst (parse_options description version (Inr vm) notify) = [''Option error: '' @ what e]"
    unfolding parsed by auto
  have none: "snd (parse_options description version (Inr vm) notify) = None"
    unfolding parsed by simp
  show ?thesis
    using iff one none msg precise unread codes never by blast
qed

theorem conflicting_refcalls_rejected_witness:
  "count both_refcalls_vm ''make-positional-refcalls'' \<noteq> 0
   \<and> \<not> is_defaulted both_refcalls_vm ''make-positional-refcalls''
   \<and> count both_refcalls_vm ''make-blocked-refcalls'' \<noteq> 0
   \<and> \<not> is_defaulted both_refcalls_vm ''make-blocked-refcalls''
   \<and> count both_refcalls_vm ''help'' = 0 \<and> count both_refcalls_vm ''version'' = 0
   \<and> count both_refcalls_vm ''reads'' \<noteq> 0 \<and> caller_is_trio both_refcalls_vm = Inr False
   \<and> count example_mock_options ''make-blocked-refcalls'' = 0
   \<and> conflicting_options example_mock_options ''make-positional-refcalls'' ''make-blocked-refcalls''
       = Inr ()
   \<and> parse_options [] [] (Inr both_refcalls_vm) (\<lambda>vm. Inr ())
       = ([''Option error: conflicting options 'make-positional-refcalls' and 'make-blocked-refcalls'.''],
          None)
   \<and> exit_code (main both_refcalls_argv (Inr (Some example_mock_options)) (\<lambda>opts. None) [] [] [])
       \<noteq> 2"
proof -
  have h: "count both_refcalls_vm ''make-positional-refcalls'' \<noteq> 0"
    "\<not> is_defaulted both_refcalls_vm ''make-positional-refcalls''"
    "count both_refcalls_vm ''make-blocked-refcalls'' \<noteq> 0"
    "\<not> is_defaulted both_refcalls_vm ''make-blocked-refcalls''"
    "count both_refcalls_vm ''help'' = 0" "count both_refcalls_vm ''version'' = 0"
    by (simp_all add: both_refcalls_vm_def count_def is_defaulted_def)
  have reads: "count both_refcalls_vm ''reads'' \<noteq> 0 \<and> caller_is_trio both_refcalls_vm = Inr False"
    by (simp add: both_refcalls_vm_def count_def caller_is_trio_def)
  have one: "count example_mock_options ''make-blocked-refcalls'' = 0"
    by (simp add: example_mock_options_def count_def)
  show ?thesis
    using h reads one
      conflicting_refcalls_rejected [OF h, where description = "[]" and version = "[]"
        and notify = "\<lambda>vm. Inr ()" and run_octopus = "\<lambda>opts. None" and start = "[]"
        and finish = "[]" and took = "[]" and mock_options = "Inr (Some example_mock_options)"
        and argv = both_refcalls_argv and vm' = example_mock_options
        and ?opt1.0 = "''make-positional-refcalls''" and ?opt2.0 = "''make-blocked-refcalls''"]
    by blast
qed

section \<open>Properties of the caller's loop\<close>

lemmas region_defs = begins_before_def left_overhang_region_def right_overhang_region_def
  overlaps_def overlap_size_def is_empty_def head_region_def tail_region_def
  is_after_def contains_def overlapped_region_def encompassing_region_def region_less_def
  rightmost_less_def ends_equal_def ends_before_def closed_region_def expand_lhs_def
  expand_rhs_def

lemmas loop_defs = loop_body_def Let_def log_events_def remove_passed_candidates_def
  calculate_flank_state_def calculate_flank_regions_def overlap_range_def
  phased_block_def removal_block_def has_passed_def get_removable_haplotypes_def
  emission_block_def refcalls_requested_def append_new_calls_def

lemmas example_defs = chr1_def snv_at_def example_parameters_def example_answers_def
  example_answers_all_filtered_def example_state_def example_flank_state_def
  example_state_after_pass_def VariantCaller_ctor_def

lemma trace_log_events [simp]: "trace (log_events evs st) = trace st @ evs"
  by (simp add: log_events_def)

lemma append_new_calls_trace:
  "append_new_calls factory_make new_calls st = Inr st' \<Longrightarrow> \<exists>evs. trace st' = trace st @ evs"
  by (auto simp: append_new_calls_def split: if_splits sum.splits)

lemma phased_block_trace:
  "phased_block factory_make call_region active_region a st = Inr (st', r)
     \<Longrightarrow> \<exists>evs. trace st' = trace st @ evs"
  by (auto simp: phased_block_def split: option.splits if_splits sum.splits
      dest!: append_new_calls_trace)

lemma removal_block_trace:
  "removal_block self get_region active_region unphased_region haplotypes a st = Inr (st', r)
     \<Longrightarrow> \<exists>evs. trace st' = trace st @ evs"
  by (auto simp: removal_block_def Let_def split: if_splits sum.splits)

lemma emission_block_trace:
  "emission_block self factory_make call_region active_region next_region haplotypes a st = Inr st'
     \<Longrightarrow> \<exists>evs. trace st' = trace st @ evs"
  by (auto simp: emission_block_def Let_def split: if_splits sum.splits option.splits
      dest!: append_new_calls_trace)

lemma loop_body_trace:
  "loop_body self get_region factory_make candidate_region call_region a st = Inr (st', c)
     \<Longrightarrow> \<exists>evs. trace st' = trace st @ Progress # evs"
  by (auto simp: loop_body_def Let_def split: list.splits if_splits sum.splits
      dest!: phased_block_trace removal_block_trace emission_block_trace)

lemma removal_block_cases:
  "removal_block self get_region active_region unphased_region (front # rest) a st =
     (if has_passed (tell_next_active_region a) active_region
      then Inr (log_events [TellNextActiveRegion] st, tell_next_active_region a)
      else if contains (get_region front) unphased_region
      then Inr (log_events
                  [TellNextActiveRegion,
                   GeneratorRemove (map fst (filter (\<lambda>p. snd p < min_haplotype_posterior self)
                                               (latent_haplotype_posteriors a))),
                   TellNextActiveRegion] st,
                tell_next_active_region_again a)
      else Inl Assertion)"
  by (simp add: removal_block_def Let_def get_removable_haplotypes_def log_events_def)

lemma emission_block_keeps:
  "emission_block self factory_make call_region active_region next_region haplotypes a st = Inr st'
     \<Longrightarrow> ev \<in> set (trace st) \<Longrightarrow> ev \<in> set (trace st')"
  by (auto dest!: emission_block_trace)

lemma removal_block_event:
  assumes "removal_block self get_region active_region unphased_region haplotypes a st = Inr r"
    and "haplotypes \<noteq> []"
    and "\<not> has_passed (tell_next_active_region a) active_region"
  shows "GeneratorRemove (map fst (filter (\<lambda>p. snd p < min_haplotype_posterior self)
                                      (latent_haplotype_posteriors a))) \<in> set (trace (fst r))"
proof -
  obtain front rest where fr: "haplotypes = front # rest"
    using assms(2) by (cases haplotypes) auto
  show ?thesis
    using assms(1,3) unfolding fr removal_block_cases by (auto split: if_splits)
qed

lemma loop_body_removes_negligible:
  assumes body: "loop_body self get_region factory_make candidate_region call_region a st = Inr (st', c)"
    and haps: "fst (progress a) \<noteq> []"
    and inside: "\<not> is_after (snd (progress a)) call_region"
    and kept: "fst (filter_to_n_haplotypes a) \<noteq> []"
    and stay: "\<not> has_passed (tell_next_active_region a) (snd (progress a))"
  shows "GeneratorRemove (map fst (filter (\<lambda>p. snd p < min_haplotype_posterior self)
                                      (latent_haplotype_posteriors a))) \<in> set (trace st')"
proof -
  let ?ev = "GeneratorRemove (map fst (filter (\<lambda>p. snd p < min_haplotype_posterior self)
                                      (latent_haplotype_posteriors a)))"
  let ?active = "snd (progress a)"
  let ?kept = "fst (filter_to_n_haplotypes a)"
  have step: "\<And>p r st3.
      removal_block self get_region ?active (snd p) ?kept a (fst p) = Inr r \<Longrightarrow>
      emission_block self factory_make call_region ?active (snd r) ?kept a (fst r) = Inr st3 \<Longrightarrow>
      ?ev \<in> set (trace (log_events [LogCompleted ?active] st3))"
  proof -
    fix p r st3
    assume rb: "removal_block self get_region ?active (snd p) ?kept a (fst p) = Inr r"
      and eb: "emission_block self factory_make call_region ?active (snd r) ?kept a (fst r) = Inr st3"
    have "?ev \<in> set (trace (fst r))" by (rule removal_block_event [OF rb kept stay])
    then have "?ev \<in> set (trace st3)" using eb by (rule emission_block_keeps [rotated])
    then show "?ev \<in> set (trace (log_events [LogCompleted ?active] st3))" by simp
  qed
  show ?thesis
    using body haps inside kept
    by (auto simp: loop_body_def Let_def split: list.splits if_splits sum.splits
        intro: step)
qed

lemma example_pass:
  "loop_body (VariantCaller_ctor example_parameters) (\<lambda>h. chr1 0 20) (\<lambda>cs. Inr []) (chr1 0 100)
       (chr1 0 100) example_answers example_state
     = (Inr (example_state_after_pass, Continue)
        :: unit abort + (nat, nat, nat) loop_state \<times> control)"
  by (simp add: loop_defs region_defs example_defs)

text \<open>
  C5: the least haplotype posterior is fixed at \<open>10\<^sup>-\<^sup>1\<^sup>5\<close>; when its assertion holds,
  \<^verbatim>\<open>get_removable_haplotypes\<close> returns the haplotypes of the posterior map whose posterior
  is strictly below it, and only those; and a pass of the loop in which the generator
  would not move past the active region hands exactly this list to the generator's
  \<^verbatim>\<open>remove\<close>.
\<close>

theorem removable_haplotypes_below_threshold:
  assumes "contains (get_region front) region"
    and "loop_body (VariantCaller_ctor parameters) get_region factory_make candidate_region
           call_region a st = Inr (st', c)"
    and "fst (progress a) \<noteq> []"
    and "\<not> is_after (snd (progress a)) call_region"
    and "fst (filter_to_n_haplotypes a) \<noteq> []"
    and "\<not> has_passed (tell_next_active_region a) (snd (progress a))"
  shows "min_haplotype_posterior (VariantCaller_ctor parameters) = 1 / 10 ^ 15
     \<and> get_removable_haplotypes (VariantCaller_ctor parameters) get_region (front # rest)
          posteriors region
        = Inr (map fst (filter (\<lambda>p. snd p < 1 / 10 ^ 15) posteriors))
     \<and> (h \<in> set (map fst (filter (\<lambda>p. snd p < 1 / 10 ^ 15) posteriors)))
        = (\<exists>q. (h, q) \<in> set posteriors \<and> q < 1 / 10 ^ 15)
     \<and> GeneratorRemove (map fst (filter (\<lambda>p. snd p < 1 / 10 ^ 15)
                                     (latent_haplotype_posteriors a))) \<in> set (trace st')"
proof -
  have threshold: "min_haplotype_posterior (VariantCaller_ctor parameters) = 1 / 10 ^ 15"
    by (simp add: VariantCaller_ctor_def)
  have returned: "get_removable_haplotypes (VariantCaller_ctor parameters) get_region (front # rest)
          posteriors region
        = Inr (map fst (filter (\<lambda>p. snd p < 1 / 10 ^ 15) posteriors))"
    unfolding get_removable_haplotypes_def threshold using assms(1) by simp
  have members: "(h \<in> set (map fst (filter (\<lambda>p. snd p < 1 / 10 ^ 15) posteriors)))
        = (\<exists>q. (h, q) \<in> set posteriors \<and> q < 1 / 10 ^ 15)"
    by force
  have removed: "GeneratorRemove (map fst (filter (\<lambda>p. snd p < 1 / 10 ^ 15)
                                     (latent_haplotype_posteriors a))) \<in> set (trace st')"
    using loop_body_removes_negligible [OF assms(2-6)] unfolding threshold .
  show ?thesis using threshold returned members removed by blast
qed

theorem removable_haplotypes_below_threshold_witness:
  "contains (chr1 0 20) (chr1 5 15)
   \<and> get_removable_haplotypes (VariantCaller_ctor example_parameters) (\<lambda>h. chr1 0 20)
        [1, 2, 3 :: nat] [(1, 9 / 10), (2, 0), (3, 1 / 10 ^ 16)] (chr1 5 15) = Inr [2, 3]
   \<and> GeneratorRemove [2, 3] \<in> set (trace example_state_after_pass)"
proof -
  have h1: "contains (chr1 0 20) (chr1 5 15)" by (simp add: contains_def chr1_def)
  have h3: "fst (progress example_answers) \<noteq> []" by (simp add: example_answers_def)
  have h4: "\<not> is_after (snd (progress example_answers)) (chr1 0 100)"
    by (simp add: example_answers_def is_after_def chr1_def)
  have h5: "fst (filter_to_n_haplotypes example_answers) \<noteq> []"
    by (simp add: example_answers_def)
  have h6: "\<not> has_passed (tell_next_active_region example_answers)
              (snd (progress example_answers))"
    by (simp add: example_answers_def has_passed_def)
  note w = removable_haplotypes_below_threshold [where get_region = "\<lambda>h. chr1 0 20"
      and front = "1 :: nat" and rest = "[2, 3]" and region = "chr1 5 15"
      and posteriors = "[(1, 9 / 10), (2, 0), (3, 1 / 10 ^ 16)]" and h = 2,
      OF h1 example_pass h3 h4 h5 h6]
  show ?thesis using h1 w by (simp add: example_answers_def)
qed

lemma call_loop_trace:
  "call_loop self get_region factory_make candidate_region call_region as st = Some (Inr final)
     \<Longrightarrow> \<exists>evs. trace final = trace st @ Progress # evs"
proof (induction as arbitrary: st)
  case Nil
  then show ?case by simp
next
  case (Cons a as)
  show ?case
  proof (cases "loop_body self get_region factory_make candidate_region call_region a st")
    case (Inl e)
    then show ?thesis using Cons.prems by simp
  next
    case (Inr result)
    obtain st' c where result: "result = (st', c)" by (cases result)
    from loop_body_trace [OF Inr [unfolded result]] obtain evs where
      evs: "trace st' = trace st @ Progress # evs" by blast
    show ?thesis
    proof (cases c)
      case Break
      then have "final = st'" using Cons.prems Inr result by simp
      then show ?thesis using evs by blast
    next
      case Continue
      then have "call_loop self get_region factory_make candidate_region call_region as st'
          = Some (Inr final)"
        using Cons.prems Inr result by simp
      from Cons.IH [OF this] obtain evs' where "trace final = trace st' @ Progress # evs'"
        by blast
      then have "trace final = trace st @ Progress # (evs @ Progress # evs')"
        using evs by simp
      then show ?thesis by blast
    qed
  qed
qed

text \<open>
  C7: when the haplotype filter leaves no haplotype, the pass ends at once: the
  generator's \<^verbatim>\<open>clear_progress\<close> is the last call made, no latents are inferred, no
  record is made and the records are as before. The loop then makes its next pass from
  the state so left, and that pass starts with a call of the generator's \<^verbatim>\<open>progress\<close>:
  the result of the loop is that of the next pass when it ends the loop or throws, and
  the loop goes on after it otherwise; if the generator then has no haplotypes left, the
  loop ends with \<^verbatim>\<open>progress\<close> as the call that follows \<^verbatim>\<open>clear_progress\<close>; and
  whenever the loop ends after the abandoned pass, \<^verbatim>\<open>progress\<close> is the call that follows
  \<^verbatim>\<open>clear_progress\<close>. The haplotype filter is a function that is not among the
  sources, so what it returns is a parameter, and all of this holds for every pair of
  lists it may return with the first one empty: whatever makes the filter leave nothing,
  be it that all haplotypes tie, as the source remarks, or anything else.
\<close>

theorem filtered_to_nothing_clears_progress:
  assumes "progress a = (front # rest, active_region)"
    and "\<not> is_after active_region call_region"
    and "unique_haplotypes a = unique_front # unique_rest"
    and "calculate_flank_state (get_region unique_front) active_region
           (remove_passed_candidates (candidates st) candidate_region (get_region front))
         = Inr flank_state"
    and "fst (filter_to_n_haplotypes a) = []"
  shows "loop_body self get_region factory_make candidate_region call_region a st
         = Inr (after_clear_progress get_region candidate_region a flank_state st, Continue)
     \<and> records (after_clear_progress get_region candidate_region a flank_state st) = records st
     \<and> trace (after_clear_progress get_region candidate_region a flank_state st)
         = trace st @ [Progress, Populate (unique_haplotypes a) flank_state,
                       FilterToNHaplotypes (unique_haplotypes a), ClearProgress]
     \<and> call_loop self get_region factory_make candidate_region call_region (a # a' # as) st
         = (case loop_body self get_region factory_make candidate_region call_region a'
                  (after_clear_progress get_region candidate_region a flank_state st) of
              Inl e \<Rightarrow> Some (Inl e)
            | Inr next_pass \<Rightarrow>
                (case snd next_pass of
                   Break \<Rightarrow> Some (Inr (fst next_pass))
                 | Continue \<Rightarrow>
                     call_loop self get_region factory_make candidate_region call_region as
                       (fst next_pass)))
     \<and> (case loop_body self get_region factory_make candidate_region call_region a'
                (after_clear_progress get_region candidate_region a flank_state st) of
           Inl e \<Rightarrow> True
         | Inr next_pass \<Rightarrow>
             \<exists>evs. trace (fst next_pass)
                     = trace st @ [Progress, Populate (unique_haplotypes a) flank_state,
                                   FilterToNHaplotypes (unique_haplotypes a), ClearProgress,
                                   Progress] @ evs)
     \<and> (fst (progress a') = [] \<longrightarrow>
          call_loop self get_region factory_make candidate_region call_region (a # a' # as) st
            = Some (Inr ((after_clear_progress get_region candidate_region a flank_state st)
                 \<lparr>trace := trace st @ [Progress, Populate (unique_haplotypes a) flank_state,
                                       FilterToNHaplotypes (unique_haplotypes a), ClearProgress,
                                       Progress, LogCompleted (snd (progress a'))]\<rparr>)))
     \<and> (\<forall>final. call_loop self get_region factory_make candidate_region call_region (a # as) st
                   = Some (Inr final) \<longrightarrow>
          (\<exists>evs. trace final
                   = trace st @ [Progress, Populate (unique_haplotypes a) flank_state,
                                 FilterToNHaplotypes (unique_haplotypes a), ClearProgress,
                                 Progress] @ evs))"
proof -
  let ?mid = "after_clear_progress get_region candidate_region a flank_state st"
  let ?events = "[Progress, Populate (unique_haplotypes a) flank_state,
                  FilterToNHaplotypes (unique_haplotypes a), ClearProgress]"
  have body: "loop_body self get_region factory_make candidate_region call_region a st
         = Inr (?mid, Continue)"
    using assms by (simp add: loop_body_def Let_def log_events_def after_clear_progress_def)
  have kept: "records ?mid = records st" by (simp add: after_clear_progress_def)
  have mid: "trace ?mid = trace st @ ?events" by (simp add: after_clear_progress_def)
  have step: "\<And>bs. call_loop self get_region factory_make candidate_region call_region (a # bs) st
      = call_loop self get_region factory_make candidate_region call_region bs ?mid"
    by (simp add: body)
  have retry: "call_loop self get_region factory_make candidate_region call_region (a # a' # as) st
         = (case loop_body self get_region factory_make candidate_region call_region a' ?mid of
              Inl e \<Rightarrow> Some (Inl e)
            | Inr next_pass \<Rightarrow>
                (case snd next_pass of
                   Break \<Rightarrow> Some (Inr (fst next_pass))
                 | Continue \<Rightarrow>
                     call_loop self get_region factory_make candidate_region call_region as
                       (fst next_pass)))"
    unfolding step by (auto split: sum.splits control.splits)
  have next_pass: "case loop_body self get_region factory_make candidate_region call_region a' ?mid of
           Inl e \<Rightarrow> True
         | Inr next_pass \<Rightarrow>
             \<exists>evs. trace (fst next_pass)
                     = trace st @ [Progress, Populate (unique_haplotypes a) flank_state,
                                   FilterToNHaplotypes (unique_haplotypes a), ClearProgress,
                                   Progress] @ evs"
    by (auto simp: mid split: sum.splits dest!: loop_body_trace)
  have ends: "fst (progress a') = [] \<longrightarrow>
          call_loop self get_region factory_make candidate_region call_region (a # a' # as) st
            = Some (Inr (?mid
                 \<lparr>trace := trace st @ [Progress, Populate (unique_haplotypes a) flank_state,
                                       FilterToNHaplotypes (unique_haplotypes a), ClearProgress,
                                       Progress, LogCompleted (snd (progress a'))]\<rparr>))"
    unfolding step by (simp add: loop_body_def Let_def log_events_def mid)
  have after: "\<forall>final. call_loop self get_region factory_make candidate_region call_region (a # as) st
                   = Some (Inr final) \<longrightarrow>
          (\<exists>evs. trace final
                   = trace st @ [Progress, Populate (unique_haplotypes a) flank_state,
                                 FilterToNHaplotypes (unique_haplotypes a), ClearProgress,
                                 Progress] @ evs)"
    unfolding step by (auto simp: mid dest!: call_loop_trace)
  show ?thesis
    by (intro conjI body kept mid retry next_pass ends after)
qed

theorem filtered_to_nothing_clears_progress_witness:
  "progress example_answers_all_filtered = (1 # [2, 3], chr1 5 15)
   \<and> \<not> is_after (chr1 5 15) (chr1 0 100)
   \<and> fst (filter_to_n_haplotypes example_answers_all_filtered) = []
   \<and> loop_body (VariantCaller_ctor example_parameters) (\<lambda>h. chr1 0 20) (\<lambda>cs. Inr [])
        (chr1 0 100) (chr1 0 100) example_answers_all_filtered example_state
      = (Inr (example_state\<lparr>trace := [Progress, Populate [1, 2, 3] example_flank_state,
                                       FilterToNHaplotypes [1, 2, 3], ClearProgress]\<rparr>, Continue)
         :: unit abort + (nat, nat, nat) loop_state \<times> control)
   \<and> call_loop (VariantCaller_ctor example_parameters) (\<lambda>h. chr1 0 20) (\<lambda>cs. Inr [])
        (chr1 0 100) (chr1 0 100)
        [example_answers_all_filtered, example_answers, example_answers_end] example_state
      = (Some (Inr (example_state\<lparr>completed_region := chr1 0 20,
           trace := [Progress, Populate [1, 2, 3] example_flank_state,
                     FilterToNHaplotypes [1, 2, 3], ClearProgress,
                     Progress, Populate [1, 2, 3] example_flank_state,
                     FilterToNHaplotypes [1, 2, 3], EraseLikelihoods [], GeneratorRemove [],
                     UniquelyKeep [1, 2, 3], InferLatents [1, 2, 3], ClearLikelihoods,
                     TryPhase [1, 2, 3], TellNextActiveRegion, GeneratorRemove [2, 3],
                     TellNextActiveRegion, CallVariants [snv_at 10], LogCompleted (chr1 5 15),
                     Progress, LogCompleted (chr1 20 30)]\<rparr>))
         :: (unit abort + (nat, nat, nat) loop_state) option)
   \<and> call_loop (VariantCaller_ctor example_parameters) (\<lambda>h. chr1 0 20) (\<lambda>cs. Inr [])
        (chr1 0 100) (chr1 0 100)
        [example_answers_all_filtered, example_answers_end] example_state
      = (Some (Inr (example_state\<lparr>
           trace := [Progress, Populate [1, 2, 3] example_flank_state,
                     FilterToNHaplotypes [1, 2, 3], ClearProgress,
                     Progress, LogCompleted (chr1 20 30)]\<rparr>))
         :: (unit abort + (nat, nat, nat) loop_state) option)"
proof -
  let ?self = "VariantCaller_ctor example_parameters"
  let ?loop = "call_loop ?self (\<lambda>h. chr1 0 20) (\<lambda>cs. Inr []) (chr1 0 100) (chr1 0 100)
      :: (nat, nat) answers list \<Rightarrow> (nat, nat, nat) loop_state
           \<Rightarrow> (unit abort + (nat, nat, nat) loop_state) option"
  let ?body = "loop_body ?self (\<lambda>h. chr1 0 20) (\<lambda>cs. Inr []) (chr1 0 100) (chr1 0 100)
      :: (nat, nat) answers \<Rightarrow> (nat, nat, nat) loop_state
           \<Rightarrow> unit abort + (nat, nat, nat) loop_state \<times> control"
  let ?mid = "example_state\<lparr>trace := [Progress, Populate [1, 2, 3] example_flank_state,
                                       FilterToNHaplotypes [1, 2, 3], ClearProgress]\<rparr>"
  have h1: "progress example_answers_all_filtered = (1 # [2, 3], chr1 5 15)"
    by (simp add: example_answers_all_filtered_def example_answers_def)
  have h2: "\<not> is_after (chr1 5 15) (chr1 0 100)" by (simp add: is_after_def chr1_def)
  have h3: "unique_haplotypes example_answers_all_filtered = 1 # [2, 3]"
    by (simp add: example_answers_all_filtered_def example_answers_def)
  have h4: "calculate_flank_state (chr1 0 20) (chr1 5 15)
              (remove_passed_candidates (candidates example_state) (chr1 0 100) (chr1 0 20))
            = Inr example_flank_state"
    by (simp add: loop_defs region_defs example_defs)
  have h5: "fst (filter_to_n_haplotypes example_answers_all_filtered) = []"
    by (simp add: example_answers_all_filtered_def)
  have mid: "after_clear_progress (\<lambda>h. chr1 0 20) (chr1 0 100) example_answers_all_filtered
               example_flank_state example_state = ?mid"
    by (simp add: after_clear_progress_def h3 example_state_def remove_passed_candidates_def
        begins_before_def chr1_def)
  note w = filtered_to_nothing_clears_progress [where get_region = "\<lambda>h. chr1 0 20"
      and self = ?self and factory_make = "\<lambda>cs. Inr []" and candidate_region = "chr1 0 100"
      and st = example_state and a' = example_answers and as = "[example_answers_end]",
      OF h1 h2 h3 h4 h5, unfolded mid]
  note w' = filtered_to_nothing_clears_progress [where get_region = "\<lambda>h. chr1 0 20"
      and self = ?self and factory_make = "\<lambda>cs. Inr []" and candidate_region = "chr1 0 100"
      and st = example_state and a' = example_answers_end and as = "[]",
      OF h1 h2 h3 h4 h5, unfolded mid]
  have body: "?body example_answers_all_filtered example_state = Inr (?mid, Continue)"
    using w [THEN conjunct1] .
  have retry: "?loop [example_answers_all_filtered, example_answers, example_answers_end] example_state
      = (case ?body example_answers ?mid of
           Inl e \<Rightarrow> Some (Inl e)
         | Inr next_pass \<Rightarrow>
             (case snd next_pass of
                Break \<Rightarrow> Some (Inr (fst next_pass))
              | Continue \<Rightarrow> ?loop [example_answers_end] (fst next_pass)))"
    using w [THEN conjunct2, THEN conjunct2, THEN conjunct2, THEN conjunct1] .
  have run: "?loop [example_answers_all_filtered, example_answers, example_answers_end] example_state
      = Some (Inr (example_state\<lparr>completed_region := chr1 0 20,
           trace := [Progress, Populate [1, 2, 3] example_flank_state,
                     FilterToNHaplotypes [1, 2, 3], ClearProgress,
                     Progress, Populate [1, 2, 3] example_flank_state,
                     FilterToNHaplotypes [1, 2, 3], EraseLikelihoods [], GeneratorRemove [],
                     UniquelyKeep [1, 2, 3], InferLatents [1, 2, 3], ClearLikelihoods,
                     TryPhase [1, 2, 3], TellNextActiveRegion, GeneratorRemove [2, 3],
                     TellNextActiveRegion, CallVariants [snv_at 10], LogCompleted (chr1 5 15),
                     Progress, LogCompleted (chr1 20 30)]\<rparr>))"
    unfolding retry by (simp add: loop_defs region_defs example_defs example_answers_end_def)
  have no_haplotypes: "fst (progress example_answers_end) = []"
    by (simp add: example_answers_end_def)
  have ends: "?loop [example_answers_all_filtered, example_answers_end] example_state
      = Some (Inr (example_state\<lparr>
           trace := [Progress, Populate [1, 2, 3] example_flank_state,
                     FilterToNHaplotypes [1, 2, 3], ClearProgress,
                     Progress, LogCompleted (chr1 20 30)]\<rparr>))"
  proof -
    have target: "?mid\<lparr>trace := trace example_state
                     @ [Progress, Populate (unique_haplotypes example_answers_all_filtered)
                                    example_flank_state,
                        FilterToNHaplotypes (unique_haplotypes example_answers_all_filtered),
                        ClearProgress, Progress,
                        LogCompleted (snd (progress example_answers_end))]\<rparr>
        = example_state\<lparr>
           trace := [Progress, Populate [1, 2, 3] example_flank_state,
                     FilterToNHaplotypes [1, 2, 3], ClearProgress,
                     Progress, LogCompleted (chr1 20 30)]\<rparr>"
      by (simp add: h3 example_state_def example_answers_end_def)
    show ?thesis
      using w' [THEN conjunct2, THEN conjunct2, THEN conjunct2, THEN conjunct2, THEN conjunct2,
          THEN conjunct1, THEN mp, OF no_haplotypes]
      unfolding target .
  qed
  show ?thesis using h1 h2 h5 body run ends by (intro conjI)
qed

section \<open>Properties of the flank regions\<close>

lemma left_flank_shape:
  assumes "\<not> is_empty (left_overhang_region h a)"
  shows "left_overhang_region h a = h\<lparr>mapped_end := mapped_begin a\<rparr>
         \<and> mapped_begin h < mapped_begin a"
  using assms by (auto simp: left_overhang_region_def is_empty_def begins_before_def split: if_splits)

lemma right_flank_shape:
  assumes "\<not> is_empty (right_overhang_region h a)"
  shows "right_overhang_region h a = h\<lparr>mapped_begin := mapped_end a\<rparr>
         \<and> mapped_end a < mapped_end h"
  using assms by (auto simp: right_overhang_region_def is_empty_def ends_before_def split: if_splits)

lemma left_boundary_insertion_outside:
  assumes "\<not> is_empty (left_overhang_region h a)"
    and "is_empty r" and "mapped_begin r = mapped_begin a"
  shows "\<not> overlaps r (expand_rhs (left_overhang_region h a) (- 1))"
  using left_flank_shape [OF assms(1)] assms(2,3)
  by (auto simp: overlaps_def overlap_size_def expand_rhs_def is_empty_def Let_def)

lemma right_boundary_insertion_outside:
  assumes "\<not> is_empty (right_overhang_region h a)"
    and "is_empty r" and "mapped_begin r = mapped_end a"
  shows "\<not> overlaps r (expand_lhs (right_overhang_region h a) (- 1))"
  using right_flank_shape [OF assms(1)] assms(2,3)
  by (auto simp: overlaps_def overlap_size_def expand_lhs_def is_empty_def Let_def)

lemma calculate_flank_regions_lhs:
  assumes "overlap_range cs active_region = first_active # more_active"
  shows "\<exists>rhs_flank. calculate_flank_regions haplotype_region active_region cs =
     Inr (let lhs_flank =
               (if is_empty (variant_region (leftmost_mappable first_active more_active))
                   \<and> \<not> is_empty (left_overhang_region haplotype_region active_region)
                then expand_rhs (left_overhang_region haplotype_region active_region) (- 1)
                else left_overhang_region haplotype_region active_region)
          in case lhs_inactive_candidates haplotype_region active_region cs of
               [] \<Rightarrow> head_region lhs_flank
             | x # xs \<Rightarrow> closed_region lhs_flank (variant_region (rightmost_mappable x xs)),
          rhs_flank)"
  using assms by (simp add: calculate_flank_regions_def lhs_inactive_candidates_def Let_def)

lemma calculate_flank_regions_rhs:
  assumes "overlap_range cs active_region = first_active # more_active"
  shows "\<exists>lhs_flank. calculate_flank_regions haplotype_region active_region cs =
     Inr (lhs_flank,
          let rhs_flank =
               (if is_empty (variant_region (rightmost_mappable first_active more_active))
                   \<and> \<not> is_empty (right_overhang_region haplotype_region active_region)
                then expand_lhs (right_overhang_region haplotype_region active_region) (- 1)
                else right_overhang_region haplotype_region active_region)
          in case rhs_inactive_candidates haplotype_region active_region cs of
               [] \<Rightarrow> tail_region rhs_flank
             | x # xs \<Rightarrow> closed_region (variant_region (leftmost_mappable x xs)) rhs_flank)"
  using assms by (simp add: calculate_flank_regions_def rhs_inactive_candidates_def Let_def)

text \<open>
  C9, as the specification states it, fails in its purpose clause. With the haplotype
  region \<open>[0, 20)\<close>, the active region \<open>[10, 20)\<close>, an insertion at 10 and a
  substitution at 15, the insertion is the leftmost active candidate and lies on the
  boundary; it overlaps the left flank \<open>[0, 10)\<close> as the flank first is, and after the
  shrinking it is not among the candidates classified inactive: the left flank that is
  returned is empty.
\<close>

theorem boundary_insertion_inactive_counterexample:
  "is_empty (variant_region insertion_at_10)
   \<and> mapped_begin (variant_region insertion_at_10) = mapped_begin (chr1 10 20)
   \<and> insertion_at_10 \<in> set (overlap_range [insertion_at_10, snv_at 15] (chr1 10 20))
   \<and> insertion_at_10 \<in> set (overlap_range [insertion_at_10, snv_at 15]
                               (left_overhang_region (chr1 0 20) (chr1 10 20)))
   \<and> insertion_at_10 \<notin> set (lhs_inactive_candidates (chr1 0 20) (chr1 10 20)
                               [insertion_at_10, snv_at 15])
   \<and> calculate_flank_regions (chr1 0 20) (chr1 10 20) [insertion_at_10, snv_at 15]
       = Inr (chr1 0 0, chr1 20 20)"
  by (simp add: calculate_flank_regions_def lhs_inactive_candidates_def overlap_range_def
      region_defs chr1_def insertion_at_10_def snv_at_def Let_def)

text \<open>
  C9, amended: when the leftmost candidate that overlaps the active region has an empty
  region and the left flank is not empty, the inactive candidates on the left are
  those that overlap the left flank with its right end moved left by one position, and
  the returned left flank is built from them; a boundary insertion, an empty candidate
  at the begin of the active region, then is not classified inactive (it stays an
  active candidate only, which is what keeps it from being counted on both sides). The
  same holds on the right with the left end of the right flank moved right by one
  position and an empty candidate at the end of the active region.
\<close>

theorem boundary_insertion_shrinks_flank:
  assumes active: "overlap_range cs active_region = first_active # more_active"
  shows "(is_empty (variant_region (leftmost_mappable first_active more_active))
          \<and> \<not> is_empty (left_overhang_region haplotype_region active_region)
          \<longrightarrow> lhs_inactive_candidates haplotype_region active_region cs
                = overlap_range cs
                    ((left_overhang_region haplotype_region active_region)
                       \<lparr>mapped_end := mapped_begin active_region - 1\<rparr>)
            \<and> mapped_end (left_overhang_region haplotype_region active_region)
                = mapped_begin active_region
            \<and> 0 < mapped_begin active_region
            \<and> (\<exists>rhs_flank. calculate_flank_regions haplotype_region active_region cs
                  = Inr (case lhs_inactive_candidates haplotype_region active_region cs of
                           [] \<Rightarrow> head_region
                                   ((left_overhang_region haplotype_region active_region)
                                      \<lparr>mapped_end := mapped_begin active_region - 1\<rparr>)
                         | x # xs \<Rightarrow> closed_region
                                   ((left_overhang_region haplotype_region active_region)
                                      \<lparr>mapped_end := mapped_begin active_region - 1\<rparr>)
                                   (variant_region (rightmost_mappable x xs)),
                         rhs_flank))
            \<and> (is_empty (variant_region c)
                 \<and> mapped_begin (variant_region c) = mapped_begin active_region
               \<longrightarrow> c \<notin> set (lhs_inactive_candidates haplotype_region active_region cs)))
       \<and> (is_empty (variant_region (rightmost_mappable first_active more_active))
          \<and> \<not> is_empty (right_overhang_region haplotype_region active_region)
          \<longrightarrow> rhs_inactive_candidates haplotype_region active_region cs
                = overlap_range cs
                    ((right_overhang_region haplotype_region active_region)
                       \<lparr>mapped_begin := mapped_end active_region + 1\<rparr>)
            \<and> mapped_begin (right_overhang_region haplotype_region active_region)
                = mapped_end active_region
            \<and> (\<exists>lhs_flank. calculate_flank_regions haplotype_region active_region cs
                  = Inr (lhs_flank,
                         case rhs_inactive_candidates haplotype_region active_region cs of
                           [] \<Rightarrow> tail_region
                                   ((right_overhang_region haplotype_region active_region)
                                      \<lparr>mapped_begin := mapped_end active_region + 1\<rparr>)
                         | x # xs \<Rightarrow> closed_region (variant_region (leftmost_mappable x xs))
                                   ((right_overhang_region haplotype_region active_region)
                                      \<lparr>mapped_begin := mapped_end active_region + 1\<rparr>)))
            \<and> (is_empty (variant_region c)
                 \<and> mapped_begin (variant_region c) = mapped_end active_region
               \<longrightarrow> c \<notin> set (rhs_inactive_candidates haplotype_region active_region cs)))"
proof (intro conjI impI)
  assume l: "is_empty (variant_region (leftmost_mappable first_active more_active))
          \<and> \<not> is_empty (left_overhang_region haplotype_region active_region)"
  note shape = left_flank_shape [of haplotype_region active_region]
  have shrunk: "expand_rhs (left_overhang_region haplotype_region active_region) (- 1)
        = (left_overhang_region haplotype_region active_region)
             \<lparr>mapped_end := mapped_begin active_region - 1\<rparr>"
    using shape l by (auto simp: expand_rhs_def nat_diff_distrib')
  show eq: "lhs_inactive_candidates haplotype_region active_region cs
                = overlap_range cs
                    ((left_overhang_region haplotype_region active_region)
                       \<lparr>mapped_end := mapped_begin active_region - 1\<rparr>)"
    using l active by (simp add: lhs_inactive_candidates_def shrunk)
  show "mapped_end (left_overhang_region haplotype_region active_region)
                = mapped_begin active_region"
    using shape l by auto
  show "0 < mapped_begin active_region" using shape l by auto
  show "\<exists>rhs_flank. calculate_flank_regions haplotype_region active_region cs
                  = Inr (case lhs_inactive_candidates haplotype_region active_region cs of
                           [] \<Rightarrow> head_region
                                   ((left_overhang_region haplotype_region active_region)
                                      \<lparr>mapped_end := mapped_begin active_region - 1\<rparr>)
                         | x # xs \<Rightarrow> closed_region
                                   ((left_overhang_region haplotype_region active_region)
                                      \<lparr>mapped_end := mapped_begin active_region - 1\<rparr>)
                                   (variant_region (rightmost_mappable x xs)),
                         rhs_flank)"
    using calculate_flank_regions_lhs [OF active, of haplotype_region] l
    unfolding shrunk [symmetric] by (simp add: Let_def)
  assume c: "is_empty (variant_region c)
                 \<and> mapped_begin (variant_region c) = mapped_begin active_region"
  have "\<not> overlaps (variant_region c)
          (expand_rhs (left_overhang_region haplotype_region active_region) (- 1))"
    using left_boundary_insertion_outside l c by blast
  then show "c \<notin> set (lhs_inactive_candidates haplotype_region active_region cs)"
    unfolding eq shrunk [symmetric] by (simp add: overlap_range_def)
next
  assume r: "is_empty (variant_region (rightmost_mappable first_active more_active))
          \<and> \<not> is_empty (right_overhang_region haplotype_region active_region)"
  note shape = right_flank_shape [of haplotype_region active_region]
  have shrunk: "expand_lhs (right_overhang_region haplotype_region active_region) (- 1)
        = (right_overhang_region haplotype_region active_region)
             \<lparr>mapped_begin := mapped_end active_region + 1\<rparr>"
    using shape r by (auto simp: expand_lhs_def nat_add_distrib)
  show eq: "rhs_inactive_candidates haplotype_region active_region cs
                = overlap_range cs
                    ((right_overhang_region haplotype_region active_region)
                       \<lparr>mapped_begin := mapped_end active_region + 1\<rparr>)"
    using r active by (simp add: rhs_inactive_candidates_def shrunk)
  show "mapped_begin (right_overhang_region haplotype_region active_region)
                = mapped_end active_region"
    using shape r by auto
  show "\<exists>lhs_flank. calculate_flank_regions haplotype_region active_region cs
                  = Inr (lhs_flank,
                         case rhs_inactive_candidates haplotype_region active_region cs of
                           [] \<Rightarrow> tail_region
                                   ((right_overhang_region haplotype_region active_region)
                                      \<lparr>mapped_begin := mapped_end active_region + 1\<rparr>)
                         | x # xs \<Rightarrow> closed_region (variant_region (leftmost_mappable x xs))
                                   ((right_overhang_region haplotype_region active_region)
                                      \<lparr>mapped_begin := mapped_end active_region + 1\<rparr>))"
    using calculate_flank_regions_rhs [OF active, of haplotype_region] r
    unfolding shrunk [symmetric] by (simp add: Let_def)
  assume c: "is_empty (variant_region c)
                 \<and> mapped_begin (variant_region c) = mapped_end active_region"
  have "\<not> overlaps (variant_region c)
          (expand_lhs (right_overhang_region haplotype_region active_region) (- 1))"
    using right_boundary_insertion_outside r c by blast
  then show "c \<notin> set (rhs_inactive_candidates haplotype_region active_region cs)"
    unfolding eq shrunk [symmetric] by (simp add: overlap_range_def)
qed

theorem boundary_insertion_shrinks_flank_witness:
  "overlap_range example_candidates (chr1 10 20)
     = insertion_at_10 # [snv_at 15, insertion_at_20]
   \<and> is_empty (variant_region (leftmost_mappable insertion_at_10 [snv_at 15, insertion_at_20]))
   \<and> \<not> is_empty (left_overhang_region (chr1 0 30) (chr1 10 20))
   \<and> is_empty (variant_region (rightmost_mappable insertion_at_10 [snv_at 15, insertion_at_20]))
   \<and> \<not> is_empty (right_overhang_region (chr1 0 30) (chr1 10 20))
   \<and> lhs_inactive_candidates (chr1 0 30) (chr1 10 20) example_candidates = [snv_at 5]
   \<and> rhs_inactive_candidates (chr1 0 30) (chr1 10 20) example_candidates = [snv_at 25]
   \<and> insertion_at_10 \<notin> set (lhs_inactive_candidates (chr1 0 30) (chr1 10 20) example_candidates)
   \<and> insertion_at_20 \<notin> set (rhs_inactive_candidates (chr1 0 30) (chr1 10 20) example_candidates)
   \<and> calculate_flank_regions (chr1 0 30) (chr1 10 20) example_candidates
       = Inr (chr1 0 6, chr1 25 30)"
proof -
  have h: "overlap_range example_candidates (chr1 10 20)
             = insertion_at_10 # [snv_at 15, insertion_at_20]"
    by (simp add: example_candidates_def overlap_range_def region_defs chr1_def
        insertion_at_10_def insertion_at_20_def snv_at_def Let_def)
  have l: "is_empty (variant_region (leftmost_mappable insertion_at_10 [snv_at 15, insertion_at_20]))
           \<and> \<not> is_empty (left_overhang_region (chr1 0 30) (chr1 10 20))"
    by (simp add: region_defs chr1_def insertion_at_10_def insertion_at_20_def snv_at_def)
  have r: "is_empty (variant_region (rightmost_mappable insertion_at_10 [snv_at 15, insertion_at_20]))
           \<and> \<not> is_empty (right_overhang_region (chr1 0 30) (chr1 10 20))"
    by (simp add: region_defs chr1_def insertion_at_10_def insertion_at_20_def snv_at_def)
  have c10: "is_empty (variant_region insertion_at_10)
             \<and> mapped_begin (variant_region insertion_at_10) = mapped_begin (chr1 10 20)"
    by (simp add: region_defs chr1_def insertion_at_10_def)
  have c20: "is_empty (variant_region insertion_at_20)
             \<and> mapped_begin (variant_region insertion_at_20) = mapped_end (chr1 10 20)"
    by (simp add: region_defs chr1_def insertion_at_20_def)
  have lhs_ok: "insertion_at_10 \<notin> set (lhs_inactive_candidates (chr1 0 30) (chr1 10 20) example_candidates)"
    using boundary_insertion_shrinks_flank [OF h, of "chr1 0 30" insertion_at_10] l c10 by blast
  have rhs_ok: "insertion_at_20 \<notin> set (rhs_inactive_candidates (chr1 0 30) (chr1 10 20) example_candidates)"
    using boundary_insertion_shrinks_flank [OF h, of "chr1 0 30" insertion_at_20] r c20 by blast
  have computed: "lhs_inactive_candidates (chr1 0 30) (chr1 10 20) example_candidates = [snv_at 5]
     \<and> rhs_inactive_candidates (chr1 0 30) (chr1 10 20) example_candidates = [snv_at 25]
     \<and> calculate_flank_regions (chr1 0 30) (chr1 10 20) example_candidates
       = Inr (chr1 0 6, chr1 25 30)"
    by (simp add: example_candidates_def calculate_flank_regions_def lhs_inactive_candidates_def
        rhs_inactive_candidates_def overlap_range_def region_defs chr1_def insertion_at_10_def
        insertion_at_20_def snv_at_def Let_def)
  show ?thesis using h l r lhs_ok rhs_ok computed by blast
qed

section \<open>Properties of the indel resolution\<close>





























lemma inconsistent_call_error_mono:
  "inconsistent_call_error ss ins call e \<Longrightarrow> set ss \<subseteq> set samples
     \<Longrightarrow> inconsistent_call_error samples ins call e"
  by (auto simp: inconsistent_call_error_def split: call_error.splits)




lemma strip_call_region [simp]: "mapped_region (strip_call trim ss ins c) = mapped_region c"
  by (simp add: strip_call_def)



lemma strip_range_nth_before:
  assumes "k < lo" and "lo \<le> length calls"
  shows "strip_range F lo hi calls ! k = calls ! k"
  using assms by (simp add: strip_range_def nth_append)























section \<open>Properties of the records\<close>

lemmas factory_defs = make_def make_segment_def set_alt_alleles_def extract_all_genotyped_alleles_def
  set_region_info_def set_info_def set_sample_format_def set_builder_genotype_def
  set_vcf_genotype_def set_phase_fields_def format_keys_def Builder_def maths_round_def
  std_round_def static_cast_int_def replace_char_def get_genotype_call_def is_phased_def
  all_phased_def
  get_model_posterior_def pick_allele_def List.map_filter_def Let_def

lemma setters_qual [simp]:
  "vcf_qual (set_info key v record) = vcf_qual record"
  "vcf_qual (set_sample_format sample key v record) = vcf_qual record"
  "vcf_qual (set_builder_genotype sample alleles p record) = vcf_qual record"
  "vcf_qual (set_vcf_genotype sample gc record) = vcf_qual record"
  "vcf_qual (set_region_info factory region record) = vcf_qual record"
  by (simp_all add: set_info_def set_sample_format_def set_builder_genotype_def
      set_vcf_genotype_def set_region_info_def)

lemma setters_genotypes [simp]:
  "vcf_genotypes (set_info key v record) = vcf_genotypes record"
  "vcf_genotypes (set_sample_format sample key v record) = vcf_genotypes record"
  "vcf_genotypes (set_builder_genotype sample alleles p record)
     = vcf_genotypes record @ [(sample, alleles, p)]"
  "vcf_genotypes (set_vcf_genotype sample gc record)
     = vcf_genotypes record @ [(sample, map sequence (genotype gc), phased)]"
  "vcf_genotypes (set_region_info factory region record) = vcf_genotypes record"
  by (simp_all add: set_info_def set_sample_format_def set_builder_genotype_def
      set_vcf_genotype_def set_region_info_def)

lemma set_phase_fields_keeps:
  "set_phase_fields sample ph record = Inr r
     \<Longrightarrow> vcf_qual r = vcf_qual record \<and> vcf_genotypes r = vcf_genotypes record"
  by (auto simp: set_phase_fields_def split: option.splits sum.splits)

lemma set_alt_alleles_keeps:
  "set_alt_alleles call samples record = Inr r
     \<Longrightarrow> vcf_qual r = vcf_qual record \<and> vcf_genotypes r = vcf_genotypes record"
  by (auto simp: set_alt_alleles_def Let_def split: sum.splits if_splits)

lemma set_samples_keeps:
  "set_samples factory call samples result = Inr r \<Longrightarrow>
     vcf_qual r = vcf_qual result
     \<and> map fst (vcf_genotypes r) = map fst (vcf_genotypes result) @ samples
     \<and> list_all (\<lambda>g. snd (snd g) = phased) (vcf_genotypes r)
         = list_all (\<lambda>g. snd (snd g) = phased) (vcf_genotypes result)"
proof (induction samples arbitrary: result r)
  case Nil
  then show ?case by simp
next
  case (Cons sample samples)
  from Cons.prems obtain gc where gc: "get_genotype_call call sample = Inr gc"
    by (cases "get_genotype_call call sample") auto
  from Cons.prems obtain rounded where
    rounded: "static_cast_int (std_round (posterior gc)) = Inr rounded"
    by (cases "static_cast_int (std_round (posterior gc))") (auto simp: gc)
  from Cons.prems obtain next_result where
    step: "set_samples factory call samples next_result = Inr r"
    and qual: "vcf_qual next_result = vcf_qual result"
    and genotypes: "vcf_genotypes next_result
                      = vcf_genotypes result @ [(sample, map sequence (genotype gc), phased)]"
    by (auto simp: gc rounded Let_def split: if_splits sum.splits dest!: set_phase_fields_keeps)
  show ?case using Cons.IH [OF step] qual genotypes by simp
qed

lemma set_segment_samples_keeps:
  "set_segment_samples factory front samples resolved_genotypes result = Inr r \<Longrightarrow>
     vcf_qual r = vcf_qual result
     \<and> map fst (vcf_genotypes r) = map fst (vcf_genotypes result) @ samples
     \<and> list_all (\<lambda>g. snd (snd g) = phased) (vcf_genotypes r)
         = list_all (\<lambda>g. snd (snd g) = phased) (vcf_genotypes result)"
proof (induction samples arbitrary: resolved_genotypes result r)
  case Nil
  then show ?case by simp
next
  case (Cons sample samples)
  from Cons.prems obtain resolved rest where
    resolved: "resolved_genotypes = resolved # rest"
    by (cases resolved_genotypes) auto
  from Cons.prems obtain gc where gc: "get_genotype_call front sample = Inr gc"
    by (cases "get_genotype_call front sample") (auto simp: resolved)
  from Cons.prems obtain rounded where
    rounded: "static_cast_int (std_round (posterior gc)) = Inr rounded"
    by (cases "static_cast_int (std_round (posterior gc))") (auto simp: resolved gc)
  from Cons.prems obtain next_result where
    step: "set_segment_samples factory front samples rest next_result = Inr r"
    and qual: "vcf_qual next_result = vcf_qual result"
    and genotypes: "vcf_genotypes next_result = vcf_genotypes result @ [(sample, resolved, phased)]"
    by (auto simp: resolved gc rounded Let_def split: if_splits sum.splits
        dest!: set_phase_fields_keeps)
  show ?case using Cons.IH [OF step] qual genotypes by simp
qed

lemma min_quality_call_Min:
  "quality (min_quality_call best calls) = Min (quality ` set (best # calls))"
proof (induction calls arbitrary: best)
  case Nil
  then show ?case by simp
next
  case (Cons c calls)
  have "Min (quality ` set (best # c # calls))
          = min (quality best) (Min (quality ` set (c # calls)))"
    by simp
  show ?case
  proof (cases "quality c < quality best")
    case True
    then have "Min (quality ` set (best # c # calls)) = Min (quality ` set (c # calls))"
      by (cases calls) (auto simp: min_def)
    then show ?thesis using Cons [of c] True by simp
  next
    case False
    then have "Min (quality ` set (best # c # calls)) = Min (quality ` set (best # calls))"
      by (cases calls) (auto simp: min_def)
    then show ?thesis using Cons [of best] False by simp
  qed
qed

lemma fold_decorate_keeps:
  "(\<And>c b. f (decorate c b) = f b) \<Longrightarrow> f (fold decorate calls b) = f b"
  by (induction calls arbitrary: b) auto

lemma std_round_near: "\<bar>real_of_int (std_round y) - y\<bar> \<le> 1 / 2"
proof (cases "y \<ge> 0")
  case True
  have "real_of_int \<lfloor>y + 1 / 2\<rfloor> \<le> y + 1 / 2" by (rule of_int_floor_le)
  moreover have "y + 1 / 2 < real_of_int \<lfloor>y + 1 / 2\<rfloor> + 1" by linarith
  ultimately have "\<bar>real_of_int \<lfloor>y + 1 / 2\<rfloor> - y\<bar> \<le> 1 / 2" by linarith
  then show ?thesis using True by (simp only: std_round_def if_True)
next
  case False
  have "real_of_int \<lfloor>- y + 1 / 2\<rfloor> \<le> - y + 1 / 2" by (rule of_int_floor_le)
  moreover have "- y + 1 / 2 < real_of_int \<lfloor>- y + 1 / 2\<rfloor> + 1" by linarith
  ultimately have "\<bar>real_of_int (- \<lfloor>- y + 1 / 2\<rfloor>) - y\<bar> \<le> 1 / 2"
    unfolding of_int_minus by linarith
  then show ?thesis using False by (simp only: std_round_def if_False)
qed

lemma maths_round_two_decimals:
  "\<bar>maths_round q 2 - q\<bar> \<le> 1 / 200 \<and> (\<exists>n :: int. maths_round q 2 = real_of_int n / 100)"
proof -
  have "\<bar>real_of_int (std_round (q * 100)) - q * 100\<bar> \<le> 1 / 2" by (rule std_round_near)
  then have "\<bar>real_of_int (std_round (q * 100)) / 100 - q\<bar> \<le> 1 / 200"
    by (simp add: abs_le_iff field_simps)
  then show ?thesis by (auto simp: maths_round_def)
qed

lemma capped_two_decimals:
  "min 5000 (maths_round q 2) \<le> 5000 \<and> (\<exists>n :: int. min 5000 (maths_round q 2) = real_of_int n / 100)"
proof -
  obtain n :: int where n: "maths_round q 2 = real_of_int n / 100"
    using maths_round_two_decimals by blast
  have "(5000 :: real) = real_of_int 500000 / 100" by simp
  then show ?thesis using n by (metis min.cobounded1 min_def)
qed

lemma make_qual:
  assumes "\<And>c b. vcf_qual (decorate c b) = vcf_qual b"
    and "make factory decorate call = Inr r"
  shows "vcf_qual r = min 5000 (maths_round (quality call) 2)"
  using assms(2)
  by (auto simp: make_def Let_def assms(1) split: sum.splits if_splits option.splits
      dest!: set_alt_alleles_keeps set_samples_keeps)

lemma make_genotypes:
  assumes "\<And>c b. vcf_genotypes (decorate c b) = vcf_genotypes b"
    and "make factory decorate call = Inr r"
  shows "(if sites_only factory then vcf_genotypes r = []
          else map fst (vcf_genotypes r) = factory_samples factory)
         \<and> list_all (\<lambda>g. snd (snd g) = phased) (vcf_genotypes r)"
  using assms(2)
  by (auto simp: make_def Let_def assms(1) Builder_def split: sum.splits if_splits option.splits
      dest!: set_alt_alleles_keeps set_samples_keeps)

lemma make_segment_qual:
  assumes dq: "\<And>c b. vcf_qual (decorate c b) = vcf_qual b"
    and ok: "make_segment factory decorate calls = Inr r"
  shows "vcf_qual r = min 5000 (maths_round (Min (quality ` set calls)) 2)"
proof (cases calls)
  case Nil
  then show ?thesis using ok by (simp add: make_segment_def)
next
  case outer: (Cons front later)
  show ?thesis
  proof (cases later)
    case Nil
    then have "make factory decorate front = Inr r"
      using ok outer by (simp add: make_segment_def)
    from make_qual [OF dq this] show ?thesis using outer Nil by simp
  next
    case (Cons c2 more)
    have folded: "\<And>cs b. vcf_qual (fold decorate cs b) = vcf_qual b"
      by (rule fold_decorate_keeps) (rule dq)
    have least: "quality (min_quality_call front later) = Min (quality ` set calls)"
      unfolding outer by (rule min_quality_call_Min)
    from ok have "vcf_qual r = min 5000 (maths_round (quality (min_quality_call front later)) 2)"
      unfolding outer Cons make_segment_def
      by (auto simp: Let_def folded dq simp del: min_quality_call.simps
          split: sum.splits if_splits option.splits dest!: set_segment_samples_keeps)
    then show ?thesis by (simp only: least)
  qed
qed

lemma make_segment_genotypes:
  assumes dg: "\<And>c b. vcf_genotypes (decorate c b) = vcf_genotypes b"
    and ok: "make_segment factory decorate calls = Inr r"
  shows "(if sites_only factory then vcf_genotypes r = []
          else map fst (vcf_genotypes r) = factory_samples factory)
         \<and> list_all (\<lambda>g. snd (snd g) = phased) (vcf_genotypes r)"
proof (cases calls)
  case Nil
  then show ?thesis using ok by (simp add: make_segment_def)
next
  case outer: (Cons front later)
  show ?thesis
  proof (cases later)
    case Nil
    then have "make factory decorate front = Inr r"
      using ok outer by (simp add: make_segment_def)
    from make_genotypes [OF dg this] show ?thesis .
  next
    case (Cons c2 more)
    have folded: "\<And>cs b. vcf_genotypes (fold decorate cs b) = vcf_genotypes b"
      by (rule fold_decorate_keeps) (rule dg)
    from ok show ?thesis
      unfolding outer Cons make_segment_def
      by (auto simp: Let_def folded dg Builder_def simp del: min_quality_call.simps
          split: sum.splits if_splits option.splits dest!: set_segment_samples_keeps)
  qed
qed

lemma std_round_mono: "x \<le> y \<Longrightarrow> std_round x \<le> std_round y"
proof -
  assume le: "x \<le> y"
  consider "0 \<le> x" | "x < 0" "0 \<le> y" | "y < 0" by linarith
  then show ?thesis
  proof cases
    case 1
    then have "0 \<le> y" using le by simp
    with 1 show ?thesis using le by (simp add: std_round_def floor_mono)
  next
    case 2
    have "0 \<le> \<lfloor>- x + 1 / 2\<rfloor>" using 2 by simp
    moreover have "0 \<le> \<lfloor>y + 1 / 2\<rfloor>" using 2 by simp
    moreover have "std_round x = - \<lfloor>- x + 1 / 2\<rfloor>" using 2 by (simp add: std_round_def)
    moreover have "std_round y = \<lfloor>y + 1 / 2\<rfloor>" using 2 by (simp add: std_round_def)
    ultimately show ?thesis by linarith
  next
    case 3
    then have "x < 0" using le by simp
    with 3 show ?thesis using le by (simp add: std_round_def floor_mono)
  qed
qed

lemma cap_then_round: "min 5000 (maths_round q 2) = maths_round (min 5000 q) 2"
proof -
  have five: "maths_round 5000 2 = 5000" by (simp add: maths_round_def std_round_def)
  have mono: "\<And>a b. a \<le> b \<Longrightarrow> maths_round a 2 \<le> maths_round b 2"
    by (simp add: maths_round_def std_round_mono divide_right_mono)
  show ?thesis
  proof (cases "q \<le> 5000")
    case True
    from mono [OF True] have "maths_round q 2 \<le> 5000" by (simp only: five)
    then show ?thesis using True by (simp add: min_absorb2)
  next
    case False
    then have "5000 \<le> q" by simp
    from mono [OF this] have "5000 \<le> maths_round q 2" by (simp only: five)
    then show ?thesis using False five by (simp add: min_absorb1)
  qed
qed

lemma unphased_call_record:
  "make example_factory (\<lambda>c b. b) unphased_call =
     Inr \<lparr>vcf_chrom = ''1'', vcf_pos = 10, vcf_ref = ''G'', vcf_alt = [''T''],
        vcf_qual = 50,
        vcf_info =
          [(''NS'', NatValue 1), (''DP'', NatValue 30),
           (''SB'', TextValue ''0.50''), (''BQ'', NatValue 35),
           (''MQ'', NatValue 60), (''MQ0'', NatValue 0)],
        vcf_format = [''GT'', ''GQ'', ''DP'', ''BQ'', ''MQ''],
        vcf_genotypes = [(''NA1'', [''G'', ''T''], phased)],
        vcf_sample_fields =
          [(''NA1'', ''GQ'', IntValue 30), (''NA1'', ''DP'', NatValue 30),
           (''NA1'', ''BQ'', NatValue 35), (''NA1'', ''MQ'', NatValue 60)]\<rparr>"
  by (simp add: factory_defs unphased_call_def example_call_def example_factory_def
      example_statistics_def example_samples_def chr1_def)

lemma segment_record:
  "make_segment example_factory (\<lambda>c b. b) [first_call, second_call] =
     Inr \<lparr>vcf_chrom = ''1'', vcf_pos = 10, vcf_ref = ''G'', vcf_alt = [''C''],
        vcf_qual = 10,
        vcf_info =
          [(''NS'', NatValue 1), (''DP'', NatValue 30),
           (''SB'', TextValue ''0.50''), (''BQ'', NatValue 35),
           (''MQ'', NatValue 60), (''MQ0'', NatValue 0)],
        vcf_format = [''GT'', ''GQ'', ''DP'', ''BQ'', ''MQ''],
        vcf_genotypes = [(''NA1'', [''G'', ''C''], phased)],
        vcf_sample_fields =
          [(''NA1'', ''GQ'', IntValue 30), (''NA1'', ''DP'', NatValue 30),
           (''NA1'', ''BQ'', NatValue 35), (''NA1'', ''MQ'', NatValue 60)]\<rparr>"
  by (simp add: factory_defs first_call_def second_call_def example_call_def example_factory_def
      example_statistics_def example_samples_def chr1_def)

text \<open>
  C2, as the specification states it, fails. The sample of the call below has no phase
  (the call is not phased for it), and the record made of the call has the sample's
  genotype with \<^verbatim>\<open>Phasing::phased\<close>, whose separator is \<^verbatim>\<open>|\<close>, where the specification
  has \<^verbatim>\<open>/\<close>.
\<close>

theorem unphased_sample_separator_counterexample:
  "map_option phase (map_of (genotype_calls unphased_call) ''NA1'') = Some None
   \<and> \<not> is_phased unphased_call ''NA1''
   \<and> (\<exists>r. make example_factory (\<lambda>c b. b) unphased_call = Inr r
          \<and> vcf_genotypes r = [(''NA1'', [''G'', ''T''], phased)]
          \<and> map (\<lambda>g. genotype_separator (snd (snd g))) (vcf_genotypes r) = [CHR ''|''])"
proof -
  have "map_option phase (map_of (genotype_calls unphased_call) ''NA1'') = Some None
        \<and> \<not> is_phased unphased_call ''NA1''"
    by (simp add: unphased_call_def example_call_def is_phased_def)
  then show ?thesis
    unfolding unphased_call_record by (simp add: genotype_separator_def)
qed

text \<open>
  C2, amended: in every record made of one call or of the calls of a segment, the
  genotypes are those of the samples of the factory, in their order, and each of them
  is set with \<^verbatim>\<open>Phasing::phased\<close>, whose separator is \<^verbatim>\<open>|\<close>, whether or not the call has
  a phase for the sample; a record of sites only has no genotypes. The decoration of a
  call, whose code is not among the sources, is taken not to touch the genotypes.
\<close>

theorem genotypes_emitted_phased:
  assumes "\<And>c b. vcf_genotypes (decorate c b) = vcf_genotypes b"
  shows "(make factory decorate call = Inr r \<longrightarrow>
            (if sites_only factory then vcf_genotypes r = []
             else map fst (vcf_genotypes r) = factory_samples factory)
            \<and> list_all (\<lambda>g. genotype_separator (snd (snd g)) = CHR ''|'') (vcf_genotypes r))
       \<and> (make_segment factory decorate calls = Inr r' \<longrightarrow>
            (if sites_only factory then vcf_genotypes r' = []
             else map fst (vcf_genotypes r') = factory_samples factory)
            \<and> list_all (\<lambda>g. genotype_separator (snd (snd g)) = CHR ''|'') (vcf_genotypes r'))"
proof -
  have sep: "\<And>gs :: (SampleName \<times> string list \<times> Phasing) list.
      list_all (\<lambda>g. snd (snd g) = phased) gs
        \<Longrightarrow> list_all (\<lambda>g. genotype_separator (snd (snd g)) = CHR ''|'') gs"
    by (simp add: list_all_iff genotype_separator_def)
  show ?thesis
    using make_genotypes [where decorate = decorate and factory = factory and call = call
        and r = r, OF assms]
      make_segment_genotypes [where decorate = decorate and factory = factory and calls = calls
        and r = r', OF assms] sep
    by blast
qed

theorem genotypes_emitted_phased_witness:
  "(\<exists>r. make example_factory (\<lambda>c b. b) unphased_call = Inr r
        \<and> \<not> sites_only example_factory
        \<and> map fst (vcf_genotypes r) = [''NA1'']
        \<and> list_all (\<lambda>g. genotype_separator (snd (snd g)) = CHR ''|'') (vcf_genotypes r))
   \<and> (\<exists>r. make_segment example_factory (\<lambda>c b. b) [first_call, second_call] = Inr r
        \<and> map fst (vcf_genotypes r) = [''NA1'']
        \<and> list_all (\<lambda>g. genotype_separator (snd (snd g)) = CHR ''|'') (vcf_genotypes r))"
proof -
  obtain r where r: "make example_factory (\<lambda>c b. b) unphased_call = Inr r"
    using unphased_call_record by blast
  obtain r' where r': "make_segment example_factory (\<lambda>c b. b) [first_call, second_call] = Inr r'"
    using segment_record by blast
  have unsited: "\<not> sites_only example_factory"
    and samples: "factory_samples example_factory = [''NA1'']"
    by (simp_all add: example_factory_def example_samples_def)
  from genotypes_emitted_phased [where decorate = "\<lambda>c b. b" and factory = example_factory
      and call = unphased_call and r = r and calls = "[first_call, second_call]" and r' = r',
      OF refl]
  show ?thesis using r r' unsited samples by simp
qed

text \<open>
  C4, as the specification states it, fails on merged records. The two calls below have
  the qualities 10 and 20; the record made of the two has the one variant allele \<^verbatim>\<open>C\<close>,
  which is the allele of the call of quality 20, and its \<^verbatim>\<open>QUAL\<close> is 10: the least of
  the qualities, not the quality of the best variant allele.
\<close>

theorem merged_record_qual_counterexample:
  "quality first_call = 10 \<and> quality second_call = 20
   \<and> (\<exists>r. make_segment example_factory (\<lambda>c b. b) [first_call, second_call] = Inr r
          \<and> vcf_alt r = [''C''] \<and> vcf_qual r = 10
          \<and> vcf_qual r \<noteq> min 5000 (maths_round (quality second_call) 2)
          \<and> vcf_qual r \<noteq> min 5000 (maths_round (Max (quality ` set [first_call, second_call])) 2))"
proof -
  have "quality first_call = 10 \<and> quality second_call = 20"
    by (simp add: first_call_def second_call_def example_call_def)
  moreover have "min 5000 (maths_round 20 2) = 20"
    by (simp add: maths_round_def std_round_def)
  ultimately show ?thesis
    unfolding segment_record by simp
qed

text \<open>
  C4, amended: the \<^verbatim>\<open>QUAL\<close> of a record made of one call is the quality of the call,
  rounded to two decimals and capped at 5000; the \<^verbatim>\<open>QUAL\<close> of a record made of the calls
  of a segment is the least of the qualities of the calls, rounded and capped in the
  same way. Rounding and then capping is capping and then rounding; the value never
  exceeds 5000, is a multiple of a hundredth, and the rounded quality is within half a
  hundredth of the quality. The decoration of a call, whose code is not among the
  sources, is taken not to touch \<^verbatim>\<open>QUAL\<close>.
\<close>

theorem qual_capped_and_rounded:
  assumes "\<And>c b. vcf_qual (decorate c b) = vcf_qual b"
  shows "(make factory decorate call = Inr r \<longrightarrow>
            vcf_qual r = min 5000 (maths_round (quality call) 2))
       \<and> (make_segment factory decorate calls = Inr r' \<longrightarrow>
            vcf_qual r' = min 5000 (maths_round (Min (quality ` set calls)) 2))
       \<and> min 5000 (maths_round q 2) = maths_round (min 5000 q) 2
       \<and> min 5000 (maths_round q 2) \<le> 5000
       \<and> (\<exists>n :: int. min 5000 (maths_round q 2) = real_of_int n / 100)
       \<and> \<bar>maths_round q 2 - q\<bar> \<le> 1 / 200"
  using make_qual [where decorate = decorate and factory = factory and call = call
      and r = r, OF assms]
    make_segment_qual [where decorate = decorate and factory = factory and calls = calls
      and r = r', OF assms]
    cap_then_round [of q] capped_two_decimals [of q] maths_round_two_decimals [of q]
  by blast

theorem qual_capped_and_rounded_witness:
  "(\<exists>r. make example_factory (\<lambda>c b. b) unphased_call = Inr r
        \<and> quality unphased_call = 50 \<and> vcf_qual r = 50)
   \<and> (\<exists>r. make_segment example_factory (\<lambda>c b. b) [first_call, second_call] = Inr r
        \<and> Min (quality ` set [first_call, second_call]) = 10 \<and> vcf_qual r = 10)"
proof -
  obtain r where r: "make example_factory (\<lambda>c b. b) unphased_call = Inr r"
    using unphased_call_record by blast
  obtain r' where r': "make_segment example_factory (\<lambda>c b. b) [first_call, second_call] = Inr r'"
    using segment_record by blast
  have qualities: "quality unphased_call = 50"
    "Min (quality ` set [first_call, second_call]) = 10"
    by (simp_all add: unphased_call_def first_call_def second_call_def example_call_def)
  have rounded: "min 5000 (maths_round 50 2) = 50" "min 5000 (maths_round 10 2) = 10"
    by (simp_all add: maths_round_def std_round_def)
  from qual_capped_and_rounded [where decorate = "\<lambda>c b. b" and factory = example_factory
      and call = unphased_call and r = r and calls = "[first_call, second_call]" and r' = r',
      OF refl]
  show ?thesis using r r' qualities rounded by simp
qed

end
